theory Spec2Isabelle
  imports Main "HOL-Library.AList"
begin

section \<open>Project references\<close>

text \<open>
  The module \<^verbatim>\<open>mlflow/projects/__init__.py\<close> launches a project: it fetches the
  project into a working directory, provisions an environment, builds the command and
  reports the status of the run to the tracking service. The functions are embedded
  with their source names (without the leading underscore, which an Isabelle name
  cannot carry). Exceptions are values of the type \<open>error\<close>, calls into libraries and
  services are recorded as events.
\<close>

subsection \<open>Errors\<close>

text \<open>
  The messages of the \<^verbatim>\<open>ExecutionException\<close>s the module raises, one constructor per
  \<^verbatim>\<open>raise\<close> statement, with the values formatted into the message.
\<close>

datatype message =
    DotInSubdirectory
  | VersionOnlyForGit
  | SubdirectoryNotFound string string
  | ZipRetrieveFailed string
  | CheckoutFailed string string string
  | CondaNotFound string
  | DockerOnDatabricks
  | DockerNotFound
  | DockerImageMissing
  | DockerNeedsProjectName
  | UnsupportedBackend string "string list"
  | RunFailed "string option"

datatype error =
    ExecutionException message
  | AssertionError
  | KeyboardInterrupt
  | Raised string

subsection \<open>The regular expressions\<close>

text \<open>
  \<^verbatim>\<open>_GIT_URI_REGEX = re.compile(r"^[^/]*:")\<close>, used with \<^verbatim>\<open>match\<close>: some colon has no
  slash before it.
\<close>

definition GIT_URI_REGEX_match :: "string \<Rightarrow> bool" where
  "GIT_URI_REGEX_match s = (CHR '':'' \<in> set (takeWhile (\<lambda>c. c \<noteq> CHR ''/'') s))"

text \<open>
  \<^verbatim>\<open>_ZIP_URI_REGEX = re.compile(r".+\.zip$")\<close>: a non-empty run of characters other
  than newline, then \<^verbatim>\<open>.zip\<close>, then the end of the string; \<^verbatim>\<open>$\<close> also matches
  before one final newline.
\<close>

definition zip_tail :: "string \<Rightarrow> bool" where
  "zip_tail t = (4 < length t \<and> drop (length t - 4) t = ''.zip'' \<and>
     CHR 0x0A \<notin> set (take (length t - 4) t))"

definition ZIP_URI_REGEX_match :: "string \<Rightarrow> bool" where
  "ZIP_URI_REGEX_match s =
     (zip_tail s \<or> (s \<noteq> [] \<and> last s = CHR 0x0A \<and> zip_tail (butlast s)))"

text \<open>
  \<^verbatim>\<open>_FILE_URI_REGEX = re.compile(r"^file://.+")\<close>: the prefix and one more character
  that is not a newline.
\<close>

definition FILE_URI_REGEX_match :: "string \<Rightarrow> bool" where
  "FILE_URI_REGEX_match s =
     (take 7 s = ''file://'' \<and> 7 < length s \<and> s ! 7 \<noteq> CHR 0x0A)"

definition is_file_uri :: "string \<Rightarrow> bool" where
  "is_file_uri uri = FILE_URI_REGEX_match uri"

definition is_local_uri :: "string \<Rightarrow> bool" where
  "is_local_uri uri = (\<not> GIT_URI_REGEX_match uri)"

definition is_zip_uri :: "string \<Rightarrow> bool" where
  "is_zip_uri uri = ZIP_URI_REGEX_match uri"

subsection \<open>Splitting off the subdirectory\<close>

text \<open>
  \<^verbatim>\<open>uri.find('#')\<close> is only evaluated under the guard \<^verbatim>\<open>'#' in uri\<close>, where it is the
  number of characters before the first \<^verbatim>\<open>#\<close>.
\<close>

definition str_find :: "string \<Rightarrow> char \<Rightarrow> nat" where
  "str_find s c = length (takeWhile (\<lambda>x. x \<noteq> c) s)"

definition parse_subdirectory :: "string \<Rightarrow> error + (string \<times> string)" where
  "parse_subdirectory uri =
     (let subdirectory = (if CHR ''#'' \<in> set uri
                          then drop (str_find uri CHR ''#'' + 1) uri else '''');
          parsed_uri = (if CHR ''#'' \<in> set uri
                        then take (str_find uri CHR ''#'') uri else uri)
      in if subdirectory \<noteq> '''' \<and> CHR ''.'' \<in> set subdirectory
         then Inl (ExecutionException DotInSubdirectory)
         else Inr (parsed_uri, subdirectory))"

section \<open>Effects\<close>

subsection \<open>Run records of the tracking service\<close>

text \<open>
  Modelled from the spec: the class \<^verbatim>\<open>mlflow.entities.RunStatus\<close> is not among the
  sources. The spec gives a run record a status among RUNNING, FINISHED and FAILED, the
  last two terminal.
\<close>

datatype RunStatus = RUNNING | FINISHED | FAILED

fun is_terminated :: "RunStatus \<Rightarrow> bool" where
  "is_terminated RUNNING = False"
| "is_terminated FINISHED = True"
| "is_terminated FAILED = True"

text \<open>\<^verbatim>\<open>run.info\<close>, with the three fields the module reads.\<close>

record run_info =
  info_run_id :: string
  info_experiment_id :: string
  info_status :: RunStatus

text \<open>The tracking service: the run records by run id.\<close>

type_synonym store = "string \<rightharpoonup> run_info"

text \<open>The tag keys imported from \<^verbatim>\<open>mlflow.utils.mlflow_tags\<close>.\<close>

datatype tag_key =
    MLFLOW_USER | MLFLOW_SOURCE_NAME | MLFLOW_SOURCE_TYPE | MLFLOW_PROJECT_ENTRY_POINT
  | MLFLOW_GIT_COMMIT | MLFLOW_PARENT_RUN_ID | MLFLOW_PROJECT_ENV
  | MLFLOW_GIT_REPO_URL | LEGACY_MLFLOW_GIT_REPO_URL
  | MLFLOW_GIT_BRANCH | LEGACY_MLFLOW_GIT_BRANCH_NAME
  | MLFLOW_DOCKER_IMAGE_NAME | MLFLOW_DOCKER_IMAGE_ID

subsection \<open>Events\<close>

text \<open>
  What \<^verbatim>\<open>_unzip_repo\<close> opens: a local path, or the bytes that \<^verbatim>\<open>_fetch_zip_repo\<close>
  downloaded.
\<close>

datatype zip_source = ZipPath string | ZipBytes string

text \<open>
  Every call that acts on the file system, on a git repository, on a process or on the
  tracking service is recorded, in the order of the calls. Logging is left out.
\<close>

datatype event =
    Mkdtemp "string option"
  | Mkstemp
  | Makedirs string
  | CopyTree string string
  | ShutilCopytree string string
  | WriteFile string string
  | MakeTarfile string string string
  | Rmtree string
  | Remove string
  | RequestsGet string
  | Unzip zip_source string
  | GitInit string
  | GitCreateRemote string string string
  | GitFetch string string
  | GitCheckout string string
  | GitCreateHead string string string string
  | GitCheckoutHead string string
  | ExecCmd "string list"
  | Popen "string list" "string option" "(string \<times> string) list" bool
  | DockerBuild string string
  | RunDatabricks string string string
  | Wait
  | Cancel
  | GetRun string
  | CreateRun string "(tag_key \<times> string) list"
  | LogParam string string string
  | SetTag string tag_key string
  | SetTerminated string RunStatus

subsection \<open>Programs\<close>

text \<open>
  A program runs on the store of the tracking service and gives its result (an
  exception or a value), the store it leaves and the events it caused.
\<close>

type_synonym 'a prog = "store \<Rightarrow> (error + 'a) \<times> store \<times> event list"

definition result_of :: "'a prog \<Rightarrow> store \<Rightarrow> error + 'a" where
  "result_of p st = fst (p st)"

definition store_of :: "'a prog \<Rightarrow> store \<Rightarrow> store" where
  "store_of p st = fst (snd (p st))"

definition events_of :: "'a prog \<Rightarrow> store \<Rightarrow> event list" where
  "events_of p st = snd (snd (p st))"

definition ret :: "'a \<Rightarrow> 'a prog" where
  "ret x = (\<lambda>st. (Inr x, st, []))"

definition raise :: "error \<Rightarrow> 'a prog" where
  "raise e = (\<lambda>st. (Inl e, st, []))"

definition emit :: "event \<Rightarrow> unit prog" where
  "emit ev = (\<lambda>st. (Inr (), st, [ev]))"

text \<open>Sequencing: an exception ends the program, the events so far are kept.\<close>

definition bnd :: "'a prog \<Rightarrow> ('a \<Rightarrow> 'b prog) \<Rightarrow> 'b prog" where
  "bnd m f = (\<lambda>st. case m st of
       (Inl e, st1, evs) \<Rightarrow> (Inl e, st1, evs)
     | (Inr x, st1, evs) \<Rightarrow> (case f x st1 of (r, st2, evs2) \<Rightarrow> (r, st2, evs @ evs2)))"

definition thn :: "'a prog \<Rightarrow> 'b prog \<Rightarrow> 'b prog" where
  "thn m n = bnd m (\<lambda>_. n)"

text \<open>\<^verbatim>\<open>try: m except: h\<close>, the handler re-raising what it does not catch.\<close>

definition try_except :: "'a prog \<Rightarrow> (error \<Rightarrow> 'a prog) \<Rightarrow> 'a prog" where
  "try_except m h = (\<lambda>st. case m st of
       (Inl e, st1, evs) \<Rightarrow> (case h e st1 of (r, st2, evs2) \<Rightarrow> (r, st2, evs @ evs2))
     | (Inr x, st1, evs) \<Rightarrow> (Inr x, st1, evs))"

text \<open>\<^verbatim>\<open>try: m finally: c\<close>.\<close>

definition try_finally :: "'a prog \<Rightarrow> unit prog \<Rightarrow> 'a prog" where
  "try_finally m c = (\<lambda>st. case m st of (r, st1, evs) \<Rightarrow>
       (case c st1 of
          (Inl e, st2, evs2) \<Rightarrow> (Inl e, st2, evs @ evs2)
        | (Inr _, st2, evs2) \<Rightarrow> (r, st2, evs @ evs2)))"

text \<open>A call into a library: the event, then what the library answered.\<close>

definition call :: "event \<Rightarrow> error + 'a \<Rightarrow> 'a prog" where
  "call ev r = thn (emit ev) (case r of Inl e \<Rightarrow> raise e | Inr x \<Rightarrow> ret x)"

definition call_unit :: "event \<Rightarrow> error option \<Rightarrow> unit prog" where
  "call_unit ev r = thn (emit ev) (case r of Some e \<Rightarrow> raise e | None \<Rightarrow> ret ())"

text \<open>Python's truth value of an optional string: \<^verbatim>\<open>None\<close> and \<^verbatim>\<open>""\<close> are false.\<close>

fun truthy :: "string option \<Rightarrow> bool" where
  "truthy None = False"
| "truthy (Some s) = (s \<noteq> '''')"

text \<open>\<^verbatim>\<open>sep.join(xs)\<close>.\<close>

fun str_join :: "string \<Rightarrow> string list \<Rightarrow> string" where
  "str_join sep [] = ''''"
| "str_join sep [x] = x"
| "str_join sep (x # y # ys) = x @ sep @ str_join sep (y # ys)"

text \<open>\<^verbatim>\<open>d.update(e)\<close> on dictionaries kept as association lists in insertion order.\<close>

definition dict_update :: "('k \<times> 'v) list \<Rightarrow> ('k \<times> 'v) list \<Rightarrow> ('k \<times> 'v) list" where
  "dict_update d e = fold (\<lambda>(k, v). AList.update k v) e d"

section \<open>The collaborators\<close>

text \<open>
  An entry point of the project manifest (module \<^verbatim>\<open>_project_spec\<close>, outside the
  sources): the three methods the module calls. Parameters are a dictionary, kept as an
  association list.
\<close>

type_synonym params = "(string \<times> string) list"

record EntryPoint =
  ep_validate_parameters :: "params \<Rightarrow> error option"
  ep_compute_parameters :: "params \<Rightarrow> string option \<Rightarrow> error + (params \<times> params)"
  ep_compute_command :: "params \<Rightarrow> string \<Rightarrow> error + string"

text \<open>The project that \<^verbatim>\<open>_project_spec.load_project\<close> returns.\<close>

record Project =
  project_name :: "string option"
  project_docker_env :: "(string \<times> string) list option"
  project_conda_env_path :: "string option"
  project_get_entry_point :: "string \<Rightarrow> error + EntryPoint"

text \<open>What \<^verbatim>\<open>databricks_utils.get_databricks_host_creds\<close> returns.\<close>

record host_creds =
  creds_host :: string
  creds_username :: "string option"
  creds_password :: "string option"
  creds_token :: "string option"
  creds_ignore_tls_verification :: bool

text \<open>
  The handle \<^verbatim>\<open>_run\<close> returns: a local run holds its run id and the arguments of the
  process started for it; a remote run is whatever \<^verbatim>\<open>run_databricks\<close> returned.
\<close>

datatype SubmittedRun =
    LocalSubmittedRun "string option" "string list"
  | DatabricksSubmittedRun "string option"

fun submitted_run_id :: "SubmittedRun \<Rightarrow> string option" where
  "submitted_run_id (LocalSubmittedRun rid _) = rid"
| "submitted_run_id (DatabricksSubmittedRun rid) = rid"

text \<open>
  Everything the module takes from outside: the operating system, the libraries it
  imports, the modules of the package that are not among the sources, and what the
  services answer. Each field is what the call of that name returns (\<open>Inl\<close>: the
  exception it raises). The module does not read \<open>git_remote_default_branch\<close>: it is
  the branch the remote repository's \<^verbatim>\<open>HEAD\<close> names.
\<close>

record world =
  os_name_nt :: bool
  os_environ :: "(string \<times> string) list"
  os_environ_MLFLOW_CONDA_HOME :: "string option"
  os_path_join :: "string \<Rightarrow> string \<Rightarrow> string"
  os_path_abspath :: "string \<Rightarrow> string"
  os_path_basename :: "string \<Rightarrow> string"
  os_path_exists :: "string \<Rightarrow> bool"
  os_makedirs :: "string \<Rightarrow> error option"
  os_remove :: "string \<Rightarrow> error option"
  tempfile_mkdtemp :: "string option \<Rightarrow> error + string"
  tempfile_mkstemp :: "error + string"
  open_read :: "string \<Rightarrow> error + string"
  open_write :: "string \<Rightarrow> string \<Rightarrow> error option"
  shutil_copytree :: "string \<Rightarrow> string \<Rightarrow> error option"
  shutil_rmtree :: "string \<Rightarrow> error option"
  dir_util_copy_tree :: "string \<Rightarrow> string \<Rightarrow> error option"
  make_tarfile :: "string \<Rightarrow> string \<Rightarrow> string \<Rightarrow> error option"
  sha1_hexdigest :: "string \<Rightarrow> string"
  json_loads_envs :: "string \<Rightarrow> error + string list"
  urlparse_unquote :: "string \<Rightarrow> string \<times> string"
  requests_get :: "string \<Rightarrow> string + string"
  zipfile_extractall :: "zip_source \<Rightarrow> string \<Rightarrow> error option"
  git_fetch :: "string \<Rightarrow> error + string list"
  git_checkout :: "string \<Rightarrow> string \<Rightarrow> string option"
  git_remote_default_branch :: "string \<Rightarrow> string"
  git_repo_remotes :: "string \<Rightarrow> error + string list"
  git_rev_parse :: "string \<Rightarrow> string \<Rightarrow> error + string"
  get_git_commit :: "string \<Rightarrow> string option"
  get_git_url_if_present :: "string \<Rightarrow> string"
  exec_cmd :: "string list \<Rightarrow> bool \<Rightarrow> error + (int \<times> string \<times> string)"
  docker_images_build :: "string \<Rightarrow> string \<Rightarrow> error + string"
  load_project :: "string \<Rightarrow> error + Project"
  run_databricks :: "run_info \<Rightarrow> string \<Rightarrow> string \<Rightarrow> string \<Rightarrow> params \<Rightarrow> string
    \<Rightarrow> string option \<Rightarrow> error + SubmittedRun"
  created_run_id :: string
  source_type_project :: string
  fluent_active_run :: "string option"
  context_get_user :: string
  get_tracking_uri :: string
  tracking_is_local_uri :: "string \<Rightarrow> bool"
  tracking_is_databricks_uri :: "string \<Rightarrow> bool"
  local_file_uri_to_path :: "string \<Rightarrow> string"
  get_databricks_host_creds :: "string \<Rightarrow> host_creds"
  RUN_ID_ENV_VAR :: string
  TRACKING_URI_ENV_VAR :: string
  EXPERIMENT_ID_ENV_VAR :: string
  wait_returns :: "SubmittedRun \<Rightarrow> error + bool"
  user_code_status :: "SubmittedRun \<Rightarrow> RunStatus option"

section \<open>The tracking client\<close>

text \<open>
  The five calls of \<^verbatim>\<open>tracking.MlflowClient()\<close> that the module makes, on the store.
  A run that the service does not know makes the call raise.
\<close>

definition client_get_run :: "string \<Rightarrow> run_info prog" where
  "client_get_run rid = (\<lambda>st. case st rid of
       None \<Rightarrow> (Inl (Raised ''MlflowException''), st, [GetRun rid])
     | Some r \<Rightarrow> (Inr r, st, [GetRun rid]))"

definition client_set_terminated :: "string \<Rightarrow> RunStatus \<Rightarrow> unit prog" where
  "client_set_terminated rid status = (\<lambda>st. case st rid of
       None \<Rightarrow> (Inl (Raised ''MlflowException''), st, [SetTerminated rid status])
     | Some r \<Rightarrow> (Inr (), st(rid \<mapsto> r\<lparr>info_status := status\<rparr>), [SetTerminated rid status]))"

definition client_create_run :: "world \<Rightarrow> string \<Rightarrow> (tag_key \<times> string) list \<Rightarrow> run_info prog" where
  "client_create_run w experiment_id tags = (\<lambda>st.
     let r = \<lparr>info_run_id = created_run_id w, info_experiment_id = experiment_id,
              info_status = RUNNING\<rparr>
     in (Inr r, st(created_run_id w \<mapsto> r), [CreateRun experiment_id tags]))"

definition client_log_param :: "string \<Rightarrow> string \<Rightarrow> string \<Rightarrow> unit prog" where
  "client_log_param rid k v = emit (LogParam rid k v)"

definition client_set_tag :: "string \<Rightarrow> tag_key \<Rightarrow> string \<Rightarrow> unit prog" where
  "client_set_tag rid k v = emit (SetTag rid k v)"

section \<open>Fetching the project\<close>

definition unzip_repo :: "world \<Rightarrow> zip_source \<Rightarrow> string \<Rightarrow> unit prog" where
  "unzip_repo w zip_file dst_dir =
     call_unit (Unzip zip_file dst_dir) (zipfile_extractall w zip_file dst_dir)"

definition fetch_zip_repo :: "world \<Rightarrow> string \<Rightarrow> zip_source prog" where
  "fetch_zip_repo w uri =
     thn (emit (RequestsGet uri))
       (case requests_get w uri of
          Inl reason \<Rightarrow> raise (ExecutionException (ZipRetrieveFailed reason))
        | Inr content \<Rightarrow> ret (ZipBytes content))"

text \<open>
  \<^verbatim>\<open>origin.refs.master\<close> raises when the fetch brought no branch of that name.
  \<open>GitCreateHead dst b r b'\<close> is \<^verbatim>\<open>create_head(b, r.refs.b')\<close> in the repository at \<open>dst\<close>.
\<close>

definition fetch_git_repo :: "world \<Rightarrow> string \<Rightarrow> string option \<Rightarrow> string \<Rightarrow> unit prog" where
  "fetch_git_repo w uri version dst_dir =
     thn (emit (GitInit dst_dir))
    (thn (emit (GitCreateRemote dst_dir ''origin'' uri))
    (bnd (call (GitFetch dst_dir ''origin'') (git_fetch w uri)) (\<lambda>refs.
     case version of
       Some v \<Rightarrow>
         thn (emit (GitCheckout dst_dir v))
           (case git_checkout w uri v of
              Some e \<Rightarrow> raise (ExecutionException (CheckoutFailed v uri e))
            | None \<Rightarrow> ret ())
     | None \<Rightarrow>
         if ''master'' \<in> set refs
         then thn (emit (GitCreateHead dst_dir ''master'' ''origin'' ''master''))
                (emit (GitCheckoutHead dst_dir ''master''))
         else raise (Raised ''AttributeError''))))"

definition fetch_project :: "world \<Rightarrow> string \<Rightarrow> bool \<Rightarrow> string option \<Rightarrow> string prog" where
  "fetch_project w uri force_tempdir version =
     (case parse_subdirectory uri of
        Inl e \<Rightarrow> raise e
      | Inr (parsed_uri, subdirectory) \<Rightarrow>
          let use_temp_dst_dir =
                (force_tempdir \<or> is_zip_uri parsed_uri \<or> \<not> is_local_uri parsed_uri)
          in
          bnd (if use_temp_dst_dir then call (Mkdtemp None) (tempfile_mkdtemp w None)
               else ret parsed_uri) (\<lambda>dst_dir.
          thn (if is_zip_uri parsed_uri then
                 (let parsed_uri2 =
                    (if is_file_uri parsed_uri
                     then os_path_join w (fst (urlparse_unquote w parsed_uri))
                            (snd (urlparse_unquote w parsed_uri))
                     else parsed_uri)
                  in bnd (if is_local_uri parsed_uri2 then ret (ZipPath parsed_uri2)
                          else fetch_zip_repo w parsed_uri2)
                       (\<lambda>zip_file. unzip_repo w zip_file dst_dir))
               else if is_local_uri uri then
                 (if version \<noteq> None
                  then raise (ExecutionException VersionOnlyForGit)
                  else if use_temp_dst_dir
                       then call_unit (CopyTree parsed_uri dst_dir)
                              (dir_util_copy_tree w parsed_uri dst_dir)
                       else ret ())
               else
                 (if \<not> GIT_URI_REGEX_match parsed_uri then raise AssertionError
                  else fetch_git_repo w parsed_uri version dst_dir))
          (let res = os_path_abspath w (os_path_join w dst_dir subdirectory)
           in if \<not> os_path_exists w res
              then raise (ExecutionException (SubdirectoryNotFound subdirectory dst_dir))
              else ret res)))"

section \<open>The conda environment\<close>

definition of_result :: "error + 'a \<Rightarrow> 'a prog" where
  "of_result r = (case r of Inl e \<Rightarrow> raise e | Inr x \<Rightarrow> ret x)"

definition process_exec_cmd :: "world \<Rightarrow> string list \<Rightarrow> bool \<Rightarrow> (int \<times> string \<times> string) prog" where
  "process_exec_cmd w cmd throw_on_error = call (ExecCmd cmd) (exec_cmd w cmd throw_on_error)"

definition get_conda_env_name :: "world \<Rightarrow> string option \<Rightarrow> string option \<Rightarrow> string prog" where
  "get_conda_env_name w conda_env_path env_id =
     bnd (case conda_env_path of
            None \<Rightarrow> ret ''''
          | Some p \<Rightarrow> if p \<noteq> '''' then of_result (open_read w p) else ret '''')
       (\<lambda>conda_env_contents.
     ret (''mlflow-'' @ sha1_hexdigest w
            (case env_id of
               None \<Rightarrow> conda_env_contents
             | Some i \<Rightarrow> if i \<noteq> '''' then conda_env_contents @ i else conda_env_contents)))"

definition get_conda_bin_executable :: "world \<Rightarrow> string \<Rightarrow> string" where
  "get_conda_bin_executable w executable_name =
     (case os_environ_MLFLOW_CONDA_HOME w of
        None \<Rightarrow> executable_name
      | Some conda_home \<Rightarrow>
          if conda_home \<noteq> '''' then os_path_join w conda_home (''bin/'' @ executable_name)
          else executable_name)"

definition get_or_create_conda_env :: "world \<Rightarrow> string option \<Rightarrow> string option \<Rightarrow> string prog" where
  "get_or_create_conda_env w conda_env_path env_id =
     (let conda_path = get_conda_bin_executable w ''conda'' in
      thn (try_except
             (thn (process_exec_cmd w [conda_path, ''--help''] False) (ret ()))
             (\<lambda>e. if e = Raised ''EnvironmentError''
                   then raise (ExecutionException (CondaNotFound conda_path))
                   else raise e))
     (bnd (process_exec_cmd w [conda_path, ''env'', ''list'', ''--json''] True)
        (\<lambda>(_, stdout, _).
      bnd (of_result (json_loads_envs w stdout)) (\<lambda>envs.
      let env_names = map (os_path_basename w) envs in
      bnd (get_conda_env_name w conda_env_path env_id) (\<lambda>project_env_name.
      thn (if project_env_name \<notin> set env_names then
             (case conda_env_path of
                None \<Rightarrow>
                  thn (process_exec_cmd w
                         [conda_path, ''create'', ''-n'', project_env_name, ''python''] True)
                    (ret ())
              | Some p \<Rightarrow>
                  if p \<noteq> '''' then
                    thn (process_exec_cmd w
                           [conda_path, ''env'', ''create'', ''-n'', project_env_name,
                            ''--file'', p] True)
                      (ret ())
                  else
                    thn (process_exec_cmd w
                           [conda_path, ''create'', ''-n'', project_env_name, ''python''] True)
                      (ret ()))
           else ret ())
        (ret project_env_name))))))"

definition get_conda_command :: "world \<Rightarrow> string \<Rightarrow> string list" where
  "get_conda_command w conda_env_name =
     (let activate_path = get_conda_bin_executable w ''activate'' in
      if \<not> os_name_nt w then [''source '' @ activate_path @ '' '' @ conda_env_name]
      else [''conda '' @ activate_path @ '' '' @ conda_env_name])"

section \<open>Reporting the terminal status\<close>

definition maybe_set_run_terminated :: "run_info option \<Rightarrow> RunStatus \<Rightarrow> unit prog" where
  "maybe_set_run_terminated active_run status =
     (case active_run of
        None \<Rightarrow> ret ()
      | Some r \<Rightarrow>
          let run_id = info_run_id r in
          bnd (client_get_run run_id) (\<lambda>cur.
          if is_terminated (info_status cur) then ret ()
          else client_set_terminated run_id status))"

text \<open>
  \<^verbatim>\<open>submitted_run_obj.wait()\<close>: the user's code runs meanwhile and may itself have
  terminated the run record (\<open>user_code_status\<close>); the call returns whether the run
  succeeded, or is interrupted.
\<close>

definition submitted_wait :: "world \<Rightarrow> SubmittedRun \<Rightarrow> bool prog" where
  "submitted_wait w sr = (\<lambda>st.
     (wait_returns w sr,
      (case submitted_run_id sr of
         None \<Rightarrow> st
       | Some rid \<Rightarrow>
           (case user_code_status w sr of
              None \<Rightarrow> st
            | Some status \<Rightarrow>
                (case st rid of
                   None \<Rightarrow> st
                 | Some r \<Rightarrow> st(rid \<mapsto> r\<lparr>info_status := status\<rparr>)))),
      [Wait]))"

definition submitted_cancel :: "SubmittedRun \<Rightarrow> unit prog" where
  "submitted_cancel sr = emit Cancel"

text \<open>
  The handler of \<^verbatim>\<open>_wait_for\<close> reads the variable \<^verbatim>\<open>active_run\<close>, which is \<^verbatim>\<open>None\<close>
  until the first statement of the \<^verbatim>\<open>try\<close> block has assigned it. The handler always
  re-raises, so the block is split after that statement, each part under the handler
  with the value the variable has there.
\<close>

definition wait_for_handler :: "SubmittedRun \<Rightarrow> run_info option \<Rightarrow> error \<Rightarrow> unit prog" where
  "wait_for_handler sr active_run e =
     (if e = KeyboardInterrupt
      then thn (submitted_cancel sr)
          (thn (maybe_set_run_terminated active_run FAILED) (raise KeyboardInterrupt))
      else raise e)"

definition wait_for :: "world \<Rightarrow> SubmittedRun \<Rightarrow> unit prog" where
  "wait_for w submitted_run_obj =
     (let run_id = submitted_run_id submitted_run_obj in
      bnd (try_except
             (case run_id of
                None \<Rightarrow> ret None
              | Some rid \<Rightarrow> bnd (client_get_run rid) (\<lambda>r. ret (Some r)))
             (\<lambda>e. bnd (wait_for_handler submitted_run_obj None e) (\<lambda>_. ret None)))
        (\<lambda>active_run.
      try_except
        (bnd (submitted_wait w submitted_run_obj) (\<lambda>ok.
           if ok then maybe_set_run_terminated active_run FINISHED
           else thn (maybe_set_run_terminated active_run FAILED)
                  (raise (ExecutionException (RunFailed run_id)))))
        (wait_for_handler submitted_run_obj active_run)))"

section \<open>The run pipeline\<close>

definition GENERATED_DOCKERFILE_NAME :: string where
  "GENERATED_DOCKERFILE_NAME = ''Dockerfile.mlflow-autogenerated''"

definition PROJECT_TAR_ARCHIVE_NAME :: string where
  "PROJECT_TAR_ARCHIVE_NAME = ''mlflow-project-docker-build-context''"

definition MLFLOW_DOCKER_TRACKING_DIR_PATH :: string where
  "MLFLOW_DOCKER_TRACKING_DIR_PATH = ''/mlflow/tmp/mlruns''"

text \<open>Python's truth value of an optional dictionary: \<^verbatim>\<open>None\<close> and \<^verbatim>\<open>{}\<close> are false.\<close>

fun truthy_dict :: "('k \<times> 'v) list option \<Rightarrow> bool" where
  "truthy_dict None = False"
| "truthy_dict (Some d) = (d \<noteq> [])"

definition expand_uri :: "world \<Rightarrow> string \<Rightarrow> string" where
  "expand_uri w uri = (if is_local_uri uri then os_path_abspath w uri else uri)"

definition get_git_repo_url :: "world \<Rightarrow> string \<Rightarrow> error + string option" where
  "get_git_repo_url w work_dir =
     (case git_repo_remotes w work_dir of
        Inl e \<Rightarrow>
          if e = Raised ''GitCommandError'' \<or> e = Raised ''InvalidGitRepositoryError''
          then Inr None else Inl e
      | Inr remote_urls \<Rightarrow>
          (case remote_urls of [] \<Rightarrow> Inr None | u # _ \<Rightarrow> Inr (Some u)))"

text \<open>
  \<^verbatim>\<open>rev_parse(...) is not ''\<close> compares with the empty string; the repository is opened
  outside the \<^verbatim>\<open>try\<close>, so any exception but \<^verbatim>\<open>GitCommandError\<close> leaves the function.
\<close>

definition is_valid_branch_name :: "world \<Rightarrow> string \<Rightarrow> string option \<Rightarrow> error + bool" where
  "is_valid_branch_name w work_dir version =
     (case version of
        None \<Rightarrow> Inr False
      | Some v \<Rightarrow>
          (case git_rev_parse w work_dir (''refs/heads/'' @ v) of
             Inr out \<Rightarrow> Inr (out \<noteq> '''')
           | Inl e \<Rightarrow> if e = Raised ''GitCommandError'' then Inr False else Inl e))"

definition validate_execution_environment :: "Project \<Rightarrow> string option \<Rightarrow> unit prog" where
  "validate_execution_environment project backend =
     (if truthy_dict (project_docker_env project) \<and> backend = Some ''databricks''
      then raise (ExecutionException DockerOnDatabricks)
      else ret ())"

definition create_run :: "world \<Rightarrow> string \<Rightarrow> string \<Rightarrow> string \<Rightarrow> string \<Rightarrow> run_info prog" where
  "create_run w uri experiment_id work_dir entry_point =
     (let source_name = (if is_local_uri uri then get_git_url_if_present w (expand_uri w uri)
                         else expand_uri w uri);
          source_version = get_git_commit w work_dir;
          parent_run_id = fluent_active_run w;
          tags = [(MLFLOW_USER, context_get_user w),
                  (MLFLOW_SOURCE_NAME, source_name),
                  (MLFLOW_SOURCE_TYPE, source_type_project w),
                  (MLFLOW_PROJECT_ENTRY_POINT, entry_point)]
                 @ (case source_version of None \<Rightarrow> [] | Some v \<Rightarrow> [(MLFLOW_GIT_COMMIT, v)])
                 @ (case parent_run_id of None \<Rightarrow> [] | Some p \<Rightarrow> [(MLFLOW_PARENT_RUN_ID, p)])
      in client_create_run w experiment_id tags)"

definition get_run_env_vars :: "world \<Rightarrow> string \<Rightarrow> string \<Rightarrow> (string \<times> string) list" where
  "get_run_env_vars w run_id experiment_id =
     dict_update [] [(RUN_ID_ENV_VAR w, run_id),
                     (TRACKING_URI_ENV_VAR w, get_tracking_uri w),
                     (EXPERIMENT_ID_ENV_VAR w, experiment_id)]"

definition get_storage_dir :: "world \<Rightarrow> string option \<Rightarrow> string prog" where
  "get_storage_dir w storage_dir =
     thn (case storage_dir of
            None \<Rightarrow> ret ()
          | Some d \<Rightarrow> if \<not> os_path_exists w d then call_unit (Makedirs d) (os_makedirs w d)
                      else ret ())
       (call (Mkdtemp storage_dir) (tempfile_mkdtemp w storage_dir))"

definition get_entry_point_command ::
  "world \<Rightarrow> Project \<Rightarrow> string \<Rightarrow> params \<Rightarrow> string option \<Rightarrow> string list prog" where
  "get_entry_point_command w project entry_point parameters storage_dir =
     bnd (get_storage_dir w storage_dir) (\<lambda>storage_dir_for_run.
     bnd (of_result (project_get_entry_point project entry_point)) (\<lambda>ep.
     bnd (of_result (ep_compute_command ep parameters storage_dir_for_run)) (\<lambda>c.
     ret [c])))"

definition run_entry_point :: "world \<Rightarrow> string \<Rightarrow> string \<Rightarrow> string \<Rightarrow> string \<Rightarrow> SubmittedRun prog" where
  "run_entry_point w command work_dir experiment_id run_id =
     (let env = dict_update (os_environ w) (get_run_env_vars w run_id experiment_id);
          args = (if \<not> os_name_nt w then [''bash'', ''-c'', command] else [command])
      in thn (emit (Popen args (Some work_dir) env False))
           (ret (LocalSubmittedRun (Some run_id) args)))"

definition build_mlflow_run_cmd ::
  "string \<Rightarrow> string \<Rightarrow> string option \<Rightarrow> bool \<Rightarrow> string \<Rightarrow> params \<Rightarrow> string list" where
  "build_mlflow_run_cmd uri entry_point storage_dir use_conda run_id parameters =
     [''mlflow'', ''run'', uri, ''-e'', entry_point, ''--run-id'', run_id]
     @ (case storage_dir of None \<Rightarrow> [] | Some d \<Rightarrow> [''--storage-dir'', d])
     @ (if \<not> use_conda then [''--no-conda''] else [])
     @ concat (map (\<lambda>(k, v). [''-P'', k @ ''='' @ v]) parameters)"

text \<open>Both platforms start the process as the leader of a group of its own.\<close>

definition run_mlflow_run_cmd :: "world \<Rightarrow> string list \<Rightarrow> (string \<times> string) list \<Rightarrow> string list prog" where
  "run_mlflow_run_cmd w mlflow_run_arr env_map =
     (let final_env = dict_update (os_environ w) env_map
      in thn (emit (Popen mlflow_run_arr None final_env True)) (ret mlflow_run_arr))"

definition invoke_mlflow_run_subprocess ::
  "world \<Rightarrow> string \<Rightarrow> string \<Rightarrow> params \<Rightarrow> string \<Rightarrow> bool \<Rightarrow> string option \<Rightarrow> string
   \<Rightarrow> SubmittedRun prog" where
  "invoke_mlflow_run_subprocess w work_dir entry_point parameters experiment_id use_conda
     storage_dir run_id =
     (let mlflow_run_arr =
            build_mlflow_run_cmd work_dir entry_point storage_dir use_conda run_id parameters
      in bnd (run_mlflow_run_cmd w mlflow_run_arr (get_run_env_vars w run_id experiment_id))
           (\<lambda>mlflow_run_subprocess. ret (LocalSubmittedRun (Some run_id) mlflow_run_subprocess)))"

subsection \<open>The container strategy\<close>

definition validate_docker_env :: "(string \<times> string) list \<Rightarrow> unit prog" where
  "validate_docker_env denv =
     (if \<not> truthy (map_of denv ''image'')
      then raise (ExecutionException DockerImageMissing)
      else ret ())"

definition validate_docker_installation :: "world \<Rightarrow> unit prog" where
  "validate_docker_installation w =
     try_except
       (thn (process_exec_cmd w [''docker'', ''--help''] False) (ret ()))
       (\<lambda>e. if e = Raised ''EnvironmentError''
             then raise (ExecutionException DockerNotFound)
             else raise e)"

text \<open>
  The profile of the tracking URI (\<^verbatim>\<open>get_db_profile_from_uri\<close>) is looked up inside
  \<open>get_databricks_host_creds\<close>, which takes the URI.
\<close>

definition get_docker_command :: "world \<Rightarrow> string \<Rightarrow> run_info \<Rightarrow> string list" where
  "get_docker_command w image_name active_run =
     (let cmd = [''docker'', ''run'', ''--rm''];
          env_vars = get_run_env_vars w (info_run_id active_run) (info_experiment_id active_run);
          tracking_uri = get_tracking_uri w;
          cmd1 = (if tracking_is_local_uri w tracking_uri
                  then cmd @ [''-v'', local_file_uri_to_path w tracking_uri @ '':''
                                @ MLFLOW_DOCKER_TRACKING_DIR_PATH]
                  else cmd);
          env1 = (if tracking_is_local_uri w tracking_uri
                  then AList.update (TRACKING_URI_ENV_VAR w) MLFLOW_DOCKER_TRACKING_DIR_PATH env_vars
                  else env_vars);
          env2 = (if tracking_is_databricks_uri w tracking_uri
                  then (let config = get_databricks_host_creds w tracking_uri;
                            e1 = AList.update (TRACKING_URI_ENV_VAR w) ''databricks'' env1;
                            e2 = AList.update ''DATABRICKS_HOST'' (creds_host config) e1;
                            e3 = (case creds_username config of
                                    None \<Rightarrow> e2
                                  | Some u \<Rightarrow> if u \<noteq> '''' then AList.update ''DATABRICKS_USERNAME'' u e2
                                              else e2);
                            e4 = (case creds_password config of
                                    None \<Rightarrow> e3
                                  | Some u \<Rightarrow> if u \<noteq> '''' then AList.update ''DATABRICKS_PASSWORD'' u e3
                                              else e3);
                            e5 = (case creds_token config of
                                    None \<Rightarrow> e4
                                  | Some u \<Rightarrow> if u \<noteq> '''' then AList.update ''DATABRICKS_TOKEN'' u e4
                                              else e4)
                        in if creds_ignore_tls_verification config
                           then AList.update ''DATABRICKS_INSECURE'' ''True'' e5 else e5)
                  else env1)
      in cmd1 @ concat (map (\<lambda>(k, v). [''-e'', k @ ''='' @ v]) env2) @ [image_name])"

definition create_docker_build_ctx :: "world \<Rightarrow> string \<Rightarrow> string \<Rightarrow> string prog" where
  "create_docker_build_ctx w work_dir dockerfile_contents =
     bnd (call (Mkdtemp None) (tempfile_mkdtemp w None)) (\<lambda>directory.
     try_finally
       (let dst_path = os_path_join w directory ''mlflow-project-contents'' in
        thn (call_unit (ShutilCopytree work_dir dst_path) (shutil_copytree w work_dir dst_path))
       (thn (call_unit
               (WriteFile (os_path_join w dst_path GENERATED_DOCKERFILE_NAME) dockerfile_contents)
               (open_write w (os_path_join w dst_path GENERATED_DOCKERFILE_NAME)
                  dockerfile_contents))
       (bnd (call Mkstemp (tempfile_mkstemp w)) (\<lambda>result_path.
        thn (call_unit (MakeTarfile result_path dst_path PROJECT_TAR_ARCHIVE_NAME)
               (make_tarfile w result_path dst_path PROJECT_TAR_ARCHIVE_NAME))
          (ret result_path)))))
       (call_unit (Rmtree directory) (shutil_rmtree w directory)))"

text \<open>
  \<^verbatim>\<open>_get_git_commit(work_dir)[:7]\<close> raises on \<^verbatim>\<open>None\<close>; a missing \<^verbatim>\<open>image\<close> is formatted
  as \<^verbatim>\<open>None\<close>; \<^verbatim>\<open>except Exception\<close> does not catch an interrupt.
\<close>

definition build_docker_image :: "world \<Rightarrow> string \<Rightarrow> Project \<Rightarrow> run_info \<Rightarrow> string prog" where
  "build_docker_image w work_dir project active_run =
     (case project_name project of
        None \<Rightarrow> raise (ExecutionException DockerNeedsProjectName)
      | Some name \<Rightarrow>
          if name = '''' then raise (ExecutionException DockerNeedsProjectName)
          else
            (case get_git_commit w work_dir of
               None \<Rightarrow> raise (Raised ''TypeError'')
             | Some commit \<Rightarrow>
                 (case project_docker_env project of
                    None \<Rightarrow> raise (Raised ''AttributeError'')
                  | Some denv \<Rightarrow>
                      let tag_name = ''mlflow-'' @ name @ ''-'' @ take 7 commit;
                          dockerfile =
                            ''FROM '' @ (case map_of denv ''image'' of None \<Rightarrow> ''None'' | Some i \<Rightarrow> i)
                            @ [CHR 0x0A] @ ''LABEL Name='' @ tag_name
                            @ [CHR 0x0A] @ ''COPY '' @ PROJECT_TAR_ARCHIVE_NAME
                            @ ''/* /mlflow/projects/code/''
                            @ [CHR 0x0A] @ ''WORKDIR /mlflow/projects/code/'' @ [CHR 0x0A]
                      in
                      bnd (create_docker_build_ctx w work_dir dockerfile) (\<lambda>build_ctx_path.
                      bnd (call (DockerBuild tag_name build_ctx_path)
                             (docker_images_build w tag_name build_ctx_path)) (\<lambda>image_id.
                      thn (try_except
                             (call_unit (Remove build_ctx_path) (os_remove w build_ctx_path))
                             (\<lambda>e. if e = KeyboardInterrupt then raise e else ret ()))
                     (thn (client_set_tag (info_run_id active_run) MLFLOW_DOCKER_IMAGE_NAME tag_name)
                     (thn (client_set_tag (info_run_id active_run) MLFLOW_DOCKER_IMAGE_ID image_id)
                        (ret tag_name))))))))"

subsection \<open>The helper \<^verbatim>\<open>_run\<close>\<close>

fun log_params :: "string \<Rightarrow> params \<Rightarrow> unit prog" where
  "log_params rid [] = ret ()"
| "log_params rid ((key, v) # kvs) = thn (client_log_param rid key v) (log_params rid kvs)"

fun set_tags :: "string \<Rightarrow> tag_key list \<Rightarrow> string \<Rightarrow> unit prog" where
  "set_tags rid [] v = ret ()"
| "set_tags rid (tag # tags) v = thn (client_set_tag rid tag v) (set_tags rid tags v)"

text \<open>
  The private helper \<^verbatim>\<open>_run\<close> is \<open>run'\<close> (the public \<^verbatim>\<open>run\<close> calls it and then
  \<^verbatim>\<open>_wait_for\<close>). The two loops over tags and parameters are \<open>set_tags\<close> and
  \<open>log_params\<close>.
\<close>

definition run' ::
  "world \<Rightarrow> string \<Rightarrow> string \<Rightarrow> string \<Rightarrow> string option \<Rightarrow> params option \<Rightarrow> string option
   \<Rightarrow> string option \<Rightarrow> bool \<Rightarrow> string option \<Rightarrow> bool \<Rightarrow> string option \<Rightarrow> SubmittedRun prog" where
  "run' w uri experiment_id entry_point version parameters0 backend backend_config use_conda
     storage_dir synchronous run_id =
     (let parameters = (case parameters0 of None \<Rightarrow> [] | Some ps \<Rightarrow> ps) in
      bnd (fetch_project w uri False version) (\<lambda>work_dir.
      bnd (of_result (load_project w work_dir)) (\<lambda>project.
      thn (validate_execution_environment project backend)
     (bnd (of_result (project_get_entry_point project entry_point)) (\<lambda>ep.
      thn (case ep_validate_parameters ep parameters of None \<Rightarrow> ret () | Some e \<Rightarrow> raise e)
     (bnd (case run_id of
             None \<Rightarrow> create_run w uri experiment_id work_dir entry_point
           | Some rid \<Rightarrow> if rid \<noteq> '''' then client_get_run rid
                         else create_run w uri experiment_id work_dir entry_point)
        (\<lambda>active_run.
      bnd (of_result (project_get_entry_point project entry_point)) (\<lambda>entry_point_obj.
      bnd (of_result (ep_compute_parameters entry_point_obj parameters None))
        (\<lambda>(final_params, extra_params).
      thn (log_params (info_run_id active_run) (final_params @ extra_params))
     (bnd (of_result (get_git_repo_url w work_dir)) (\<lambda>repo_url.
      thn (case repo_url of
             None \<Rightarrow> ret ()
           | Some u \<Rightarrow> set_tags (info_run_id active_run)
                        [MLFLOW_GIT_REPO_URL, LEGACY_MLFLOW_GIT_REPO_URL] u)
     (bnd (of_result (is_valid_branch_name w work_dir version)) (\<lambda>valid_branch.
      thn (if valid_branch
           then set_tags (info_run_id active_run)
                  [MLFLOW_GIT_BRANCH, LEGACY_MLFLOW_GIT_BRANCH_NAME]
                  (case version of None \<Rightarrow> '''' | Some v \<Rightarrow> v)
           else ret ())
     (if backend = Some ''databricks'' then
        call (RunDatabricks uri entry_point work_dir)
          (run_databricks w active_run uri entry_point work_dir parameters experiment_id
             backend_config)
      else if backend = Some ''local'' \<or> backend = None then
        bnd (if truthy_dict (project_docker_env project) then
               thn (client_set_tag (info_run_id active_run) MLFLOW_PROJECT_ENV ''docker'')
              (thn (validate_docker_env
                      (case project_docker_env project of None \<Rightarrow> [] | Some d \<Rightarrow> d))
              (thn (validate_docker_installation w)
              (bnd (build_docker_image w work_dir project active_run) (\<lambda>image_name.
               ret ('' '', get_docker_command w image_name active_run)))))
             else if use_conda then
               thn (client_set_tag (info_run_id active_run) MLFLOW_PROJECT_ENV ''conda'')
              (bnd (get_or_create_conda_env w (project_conda_env_path project) None)
                 (\<lambda>conda_env_name.
               ret ('' && '', get_conda_command w conda_env_name)))
             else ret ('' '', []))
          (\<lambda>(command_separator, command).
        if synchronous then
          bnd (get_entry_point_command w project entry_point parameters storage_dir)
            (\<lambda>entry_point_command.
          run_entry_point w (str_join command_separator (command @ entry_point_command))
            work_dir experiment_id (info_run_id active_run))
        else
          invoke_mlflow_run_subprocess w work_dir entry_point parameters experiment_id
            use_conda storage_dir (info_run_id active_run))
      else
        raise (ExecutionException
                 (UnsupportedBackend (case backend of None \<Rightarrow> ''None'' | Some b \<Rightarrow> b)
                    [''local'', ''databricks'']))))))))))))))))"

section \<open>Notions used in the statements\<close>

text \<open>The reports of a terminal status for the run \<open>rid\<close> among the events.\<close>

fun is_report :: "string \<Rightarrow> event \<Rightarrow> bool" where
  "is_report rid (SetTerminated rid' _) = (rid' = rid)"
| "is_report rid _ = False"

text \<open>The store holds the run \<open>rid\<close> with a terminal status.\<close>

definition terminal_in :: "store \<Rightarrow> string \<Rightarrow> bool" where
  "terminal_in st rid =
     (case st rid of None \<Rightarrow> False | Some r \<Rightarrow> is_terminated (info_status r))"

fun is_create_run :: "event \<Rightarrow> bool" where
  "is_create_run (CreateRun _ _) = True"
| "is_create_run _ = False"

fun is_mkdtemp :: "event \<Rightarrow> bool" where
  "is_mkdtemp (Mkdtemp _) = True"
| "is_mkdtemp _ = False"

text \<open>An \<^verbatim>\<open>ExecutionException\<close>, whatever its message.\<close>

fun is_execution_exception :: "error + 'a \<Rightarrow> bool" where
  "is_execution_exception (Inl (ExecutionException _)) = True"
| "is_execution_exception _ = False"

text \<open>
  A program is quiet for a property of events when it leaves the store as it is and
  causes only events with the property.
\<close>

definition quiet :: "(event \<Rightarrow> bool) \<Rightarrow> 'a prog \<Rightarrow> bool" where
  "quiet P p = (\<forall>st. store_of p st = st \<and> (\<forall>ev \<in> set (events_of p st). P ev))"

section \<open>A world for the examples\<close>

text \<open>
  \<^verbatim>\<open>posixpath.join\<close> on two components. The paths of the examples are absolute,
  without dots or double slashes, so \<^verbatim>\<open>abspath\<close> only has to drop a final slash.
\<close>

definition posix_join :: "string \<Rightarrow> string \<Rightarrow> string" where
  "posix_join a b =
     (if b \<noteq> [] \<and> hd b = CHR ''/'' then b
      else if a = [] \<or> last a = CHR ''/'' then a @ b
      else a @ ''/'' @ b)"

text \<open>
  An entry point that rejects the value \<^verbatim>\<open>bad\<close> for its parameter \<^verbatim>\<open>alpha\<close>, and a
  project with a conda environment.
\<close>

definition example_entry_point :: EntryPoint where
  "example_entry_point =
     \<lparr>ep_validate_parameters =
        (\<lambda>ps. if map_of ps ''alpha'' = Some ''bad'' then Some (Raised ''ExecutionException'')
              else None),
      ep_compute_parameters = (\<lambda>ps storage_dir. Inr (ps, [(''beta'', ''1'')])),
      ep_compute_command = (\<lambda>ps storage_dir. Inr ''python train.py'')\<rparr>"

definition example_project :: Project where
  "example_project =
     \<lparr>project_name = Some ''demo'',
      project_docker_env = None,
      project_conda_env_path = Some ''/tmp/proj/conda.yaml'',
      project_get_entry_point = (\<lambda>n. Inr example_entry_point)\<rparr>"

text \<open>
  A machine on which every call succeeds: conda lists one environment, the remote
  repository has the branches \<^verbatim>\<open>main\<close> (its default) and \<^verbatim>\<open>master\<close>, the checked out
  directory is no git repository.
\<close>

definition example_world :: world where
  "example_world =
     \<lparr>os_name_nt = False,
      os_environ = [(''HOME'', ''/root'')],
      os_environ_MLFLOW_CONDA_HOME = None,
      os_path_join = posix_join,
      os_path_abspath = (\<lambda>p. if 1 < length p \<and> last p = CHR ''/'' then butlast p else p),
      os_path_basename = (\<lambda>p. rev (takeWhile (\<lambda>c. c \<noteq> CHR ''/'') (rev p))),
      os_path_exists = (\<lambda>p. True),
      os_makedirs = (\<lambda>p. None),
      os_remove = (\<lambda>p. None),
      tempfile_mkdtemp = (\<lambda>d. Inr (case d of None \<Rightarrow> ''/tmp/tmpdir'' | Some p \<Rightarrow> p @ ''/tmpdir'')),
      tempfile_mkstemp = Inr ''/tmp/tmpfile'',
      open_read = (\<lambda>p. Inr ''name: demo''),
      open_write = (\<lambda>p c. None),
      shutil_copytree = (\<lambda>a b. None),
      shutil_rmtree = (\<lambda>p. None),
      dir_util_copy_tree = (\<lambda>a b. None),
      make_tarfile = (\<lambda>a b c. None),
      sha1_hexdigest = (\<lambda>s. ''da39a3ee''),
      json_loads_envs = (\<lambda>s. Inr [''/opt/conda/envs/base'']),
      urlparse_unquote = (\<lambda>u. ('''', drop 7 u)),
      requests_get = (\<lambda>u. Inr ''PK''),
      zipfile_extractall = (\<lambda>z d. None),
      git_fetch = (\<lambda>u. Inr [''main'', ''master'']),
      git_checkout = (\<lambda>u v. None),
      git_remote_default_branch = (\<lambda>u. ''main''),
      git_repo_remotes = (\<lambda>d. Inl (Raised ''InvalidGitRepositoryError'')),
      git_rev_parse = (\<lambda>d r. Inl (Raised ''GitCommandError'')),
      get_git_commit = (\<lambda>d. None),
      get_git_url_if_present = (\<lambda>u. u),
      exec_cmd = (\<lambda>cmd throw_on_error. Inr (0, ''{}'', '''')),
      docker_images_build = (\<lambda>t c. Inr ''sha256:0''),
      load_project = (\<lambda>d. Inr example_project),
      run_databricks = (\<lambda>r u e d p x c. Inr (DatabricksSubmittedRun (Some (info_run_id r)))),
      created_run_id = ''run1'',
      source_type_project = ''PROJECT'',
      fluent_active_run = None,
      context_get_user = ''alice'',
      get_tracking_uri = ''http://tracking'',
      tracking_is_local_uri = (\<lambda>u. False),
      tracking_is_databricks_uri = (\<lambda>u. False),
      local_file_uri_to_path = (\<lambda>u. u),
      get_databricks_host_creds = (\<lambda>u. \<lparr>creds_host = '''', creds_username = None,
        creds_password = None, creds_token = None, creds_ignore_tls_verification = False\<rparr>),
      RUN_ID_ENV_VAR = ''MLFLOW_RUN_ID'',
      TRACKING_URI_ENV_VAR = ''MLFLOW_TRACKING_URI'',
      EXPERIMENT_ID_ENV_VAR = ''MLFLOW_EXPERIMENT_ID'',
      wait_returns = (\<lambda>sr. Inr True),
      user_code_status = (\<lambda>sr. None)\<rparr>"

text \<open>A run record that is still running, and the store that holds it.\<close>

definition example_run :: run_info where
  "example_run = \<lparr>info_run_id = ''run0'', info_experiment_id = ''0'', info_status = RUNNING\<rparr>"

definition example_store :: store where
  "example_store = Map.empty(''run0'' \<mapsto> example_run)"

text \<open>
  The same world, where the directory holds a clone: the repository has the remote it
  was fetched from.
\<close>

definition example_git_world :: world where
  "example_git_world =
     example_world\<lparr>git_repo_remotes := (\<lambda>d. Inr [''https://example.com/repo.git''])\<rparr>"

section \<open>Properties of the parser\<close>

lemma split_at_hash:
  assumes "CHR ''#'' \<in> set uri"
  shows "take (str_find uri CHR ''#'') uri @ ''#'' @ drop (str_find uri CHR ''#'' + 1) uri = uri"
proof -
  let ?p = "\<lambda>x. x \<noteq> CHR ''#''"
  from assms have ne: "dropWhile ?p uri \<noteq> []" by simp
  have h: "hd (dropWhile ?p uri) = CHR ''#''"
    using hd_dropWhile [OF ne] by simp
  have t: "take (str_find uri CHR ''#'') uri = takeWhile ?p uri"
    unfolding str_find_def by (rule takeWhile_eq_take [symmetric])
  have d: "drop (str_find uri CHR ''#'') uri = dropWhile ?p uri"
    unfolding str_find_def by (rule dropWhile_eq_drop [symmetric])
  have "drop (str_find uri CHR ''#'' + 1) uri = tl (drop (str_find uri CHR ''#'') uri)"
    by (simp add: drop_Suc tl_drop)
  then have "drop (str_find uri CHR ''#'' + 1) uri = tl (dropWhile ?p uri)"
    by (simp only: d)
  moreover have "dropWhile ?p uri = CHR ''#'' # tl (dropWhile ?p uri)"
    using ne h by (cases "dropWhile ?p uri") auto
  ultimately have "''#'' @ drop (str_find uri CHR ''#'' + 1) uri = dropWhile ?p uri"
    by simp
  with t show ?thesis
    by (metis takeWhile_dropWhile_id)
qed

lemma parse_subdirectory_hash:
  assumes "parse_subdirectory uri = Inr (b, s)" and "s \<noteq> ''''"
  shows "CHR ''#'' \<in> set uri"
  using assms by (auto simp: parse_subdirectory_def Let_def split: if_splits)

lemma str_find_append:
  assumes "CHR ''#'' \<notin> set b"
  shows "str_find (b @ CHR ''#'' # s) CHR ''#'' = length b"
  using assms by (induction b) (auto simp: str_find_def)

lemma parse_subdirectory_append:
  assumes "CHR ''#'' \<notin> set b"
  shows "parse_subdirectory (b @ CHR ''#'' # s) =
     (if CHR ''.'' \<in> set s then Inl (ExecutionException DotInSubdirectory) else Inr (b, s))"
  using assms str_find_append [OF assms, of s]
  by (auto simp: parse_subdirectory_def Let_def)

text \<open>
  Claim C6. Parsing a reference round-trips: when \<open>parse_subdirectory\<close> gives the base
  \<open>b\<close> and a non-empty subdirectory \<open>s\<close>, the string \<open>b # s\<close> put together again is
  the reference itself, it parses to the same pair, the three classifiers answer on it
  as on the reference, and fetching it is fetching the reference.
\<close>

theorem parse_subdirectory_roundtrip:
  assumes "parse_subdirectory uri = Inr (b, s)" and "s \<noteq> ''''"
  shows "b @ ''#'' @ s = uri \<and>
         parse_subdirectory (b @ ''#'' @ s) = Inr (b, s) \<and>
         is_local_uri (b @ ''#'' @ s) = is_local_uri uri \<and>
         is_zip_uri (b @ ''#'' @ s) = is_zip_uri uri \<and>
         is_file_uri (b @ ''#'' @ s) = is_file_uri uri \<and>
         fetch_project w (b @ ''#'' @ s) force_tempdir version =
           fetch_project w uri force_tempdir version"
proof -
  have h: "CHR ''#'' \<in> set uri"
    using assms by (rule parse_subdirectory_hash)
  have b: "b = take (str_find uri CHR ''#'') uri"
    and s: "s = drop (str_find uri CHR ''#'' + 1) uri"
    using assms(1) h by (auto simp: parse_subdirectory_def Let_def split: if_splits)
  have "b @ ''#'' @ s = uri"
    unfolding b s using h by (rule split_at_hash)
  with assms(1) show ?thesis by simp
qed

theorem parse_subdirectory_roundtrip_witness:
  "parse_subdirectory ''/tmp/proj#sub'' = Inr (''/tmp/proj'', ''sub'') \<and> ''sub'' \<noteq> '''' \<and>
   parse_subdirectory (''/tmp/proj'' @ ''#'' @ ''sub'') = Inr (''/tmp/proj'', ''sub'')"
proof -
  have p: "parse_subdirectory ''/tmp/proj#sub'' = Inr (''/tmp/proj'', ''sub'')"
    by (simp add: parse_subdirectory_def str_find_def)
  have n: "''sub'' \<noteq> ''''" by simp
  from parse_subdirectory_roundtrip [OF p n] p show ?thesis by simp
qed

text \<open>
  Claim C7. A reference is a base \<open>b\<close> without \<open>#\<close>, the delimiter, and the
  subdirectory \<open>s\<close>. Whenever \<open>s\<close> holds a dot, parsing raises, whatever the base is.
\<close>

theorem parse_subdirectory_rejects_dot:
  assumes "CHR ''#'' \<notin> set b" and "CHR ''.'' \<in> set s"
  shows "parse_subdirectory (b @ ''#'' @ s) = Inl (ExecutionException DotInSubdirectory)"
  using assms by (simp add: parse_subdirectory_append)

theorem parse_subdirectory_rejects_dot_witness:
  "CHR ''#'' \<notin> set ''https://example.com/repo'' \<and> CHR ''.'' \<in> set ''a.b'' \<and>
   parse_subdirectory (''https://example.com/repo'' @ ''#'' @ ''a.b'') =
     Inl (ExecutionException DotInSubdirectory)"
proof -
  have a: "CHR ''#'' \<notin> set ''https://example.com/repo''" by simp
  have b: "CHR ''.'' \<in> set ''a.b''" by simp
  from parse_subdirectory_rejects_dot [OF a b] a b show ?thesis by simp
qed

section \<open>Laws of the program combinators\<close>

lemma ret_simps:
  "result_of (ret x) st = Inr x" "store_of (ret x) st = st" "events_of (ret x) st = []"
  by (simp_all add: ret_def result_of_def store_of_def events_of_def)

lemma raise_simps:
  "result_of (raise e) st = Inl e" "store_of (raise e) st = st" "events_of (raise e) st = []"
  by (simp_all add: raise_def result_of_def store_of_def events_of_def)

lemma emit_simps:
  "result_of (emit ev) st = Inr ()" "store_of (emit ev) st = st" "events_of (emit ev) st = [ev]"
  by (simp_all add: emit_def result_of_def store_of_def events_of_def)

lemma bnd_simps:
  "result_of (bnd m f) st =
     (case result_of m st of Inl e \<Rightarrow> Inl e | Inr x \<Rightarrow> result_of (f x) (store_of m st))"
  "store_of (bnd m f) st =
     (case result_of m st of Inl e \<Rightarrow> store_of m st | Inr x \<Rightarrow> store_of (f x) (store_of m st))"
  "events_of (bnd m f) st =
     events_of m st @
     (case result_of m st of Inl e \<Rightarrow> [] | Inr x \<Rightarrow> events_of (f x) (store_of m st))"
  by (auto simp: bnd_def result_of_def store_of_def events_of_def split: prod.splits sum.splits)

lemma thn_simps:
  "result_of (thn m n) st =
     (case result_of m st of Inl e \<Rightarrow> Inl e | Inr x \<Rightarrow> result_of n (store_of m st))"
  "store_of (thn m n) st =
     (case result_of m st of Inl e \<Rightarrow> store_of m st | Inr x \<Rightarrow> store_of n (store_of m st))"
  "events_of (thn m n) st =
     events_of m st @
     (case result_of m st of Inl e \<Rightarrow> [] | Inr x \<Rightarrow> events_of n (store_of m st))"
  by (simp_all add: thn_def bnd_simps)

lemma try_except_simps:
  "result_of (try_except m h) st =
     (case result_of m st of Inl e \<Rightarrow> result_of (h e) (store_of m st) | Inr x \<Rightarrow> Inr x)"
  "store_of (try_except m h) st =
     (case result_of m st of Inl e \<Rightarrow> store_of (h e) (store_of m st) | Inr x \<Rightarrow> store_of m st)"
  "events_of (try_except m h) st =
     events_of m st @
     (case result_of m st of Inl e \<Rightarrow> events_of (h e) (store_of m st) | Inr x \<Rightarrow> [])"
  by (auto simp: try_except_def result_of_def store_of_def events_of_def
      split: prod.splits sum.splits)

lemma try_finally_simps:
  "result_of (try_finally m c) st =
     (case result_of c (store_of m st) of Inl e \<Rightarrow> Inl e | Inr x \<Rightarrow> result_of m st)"
  "store_of (try_finally m c) st = store_of c (store_of m st)"
  "events_of (try_finally m c) st = events_of m st @ events_of c (store_of m st)"
  by (auto simp: try_finally_def result_of_def store_of_def events_of_def
      split: prod.splits sum.splits)

lemma call_simps:
  "result_of (call ev r) st = r" "store_of (call ev r) st = st" "events_of (call ev r) st = [ev]"
  by (simp_all add: call_def thn_simps emit_simps ret_simps raise_simps split: sum.splits)

lemma call_unit_simps:
  "result_of (call_unit ev r) st = (case r of None \<Rightarrow> Inr () | Some e \<Rightarrow> Inl e)"
  "store_of (call_unit ev r) st = st" "events_of (call_unit ev r) st = [ev]"
  by (simp_all add: call_unit_def thn_simps emit_simps ret_simps raise_simps split: option.splits)

lemma of_result_simps:
  "result_of (of_result r) st = r" "store_of (of_result r) st = st"
  "events_of (of_result r) st = []"
  by (simp_all add: of_result_def ret_simps raise_simps split: sum.splits)

lemmas prog_simps = ret_simps raise_simps emit_simps bnd_simps thn_simps try_except_simps
  try_finally_simps call_simps call_unit_simps of_result_simps

section \<open>Properties of the terminal status report\<close>

lemma client_get_run_simps:
  "result_of (client_get_run rid) st =
     (case st rid of None \<Rightarrow> Inl (Raised ''MlflowException'') | Some r \<Rightarrow> Inr r)"
  "store_of (client_get_run rid) st = st"
  "events_of (client_get_run rid) st = [GetRun rid]"
  by (simp_all add: client_get_run_def result_of_def store_of_def events_of_def
      split: option.splits)

lemma client_set_terminated_simps:
  "result_of (client_set_terminated rid status) st =
     (case st rid of None \<Rightarrow> Inl (Raised ''MlflowException'') | Some r \<Rightarrow> Inr ())"
  "store_of (client_set_terminated rid status) st =
     (case st rid of None \<Rightarrow> st | Some r \<Rightarrow> st(rid \<mapsto> r\<lparr>info_status := status\<rparr>))"
  "events_of (client_set_terminated rid status) st = [SetTerminated rid status]"
  by (simp_all add: client_set_terminated_def result_of_def store_of_def events_of_def
      split: option.splits)

lemma maybe_terminal:
  assumes "terminal_in st (info_run_id r)"
  shows "events_of (maybe_set_run_terminated (Some r) status) st = [GetRun (info_run_id r)]"
    and "store_of (maybe_set_run_terminated (Some r) status) st = st"
    and "result_of (maybe_set_run_terminated (Some r) status) st = Inr ()"
  using assms
  by (auto simp: maybe_set_run_terminated_def terminal_in_def Let_def prog_simps
      client_get_run_simps client_set_terminated_simps split: option.splits)

lemma maybe_running:
  assumes "st (info_run_id r) = Some cur" and "\<not> is_terminated (info_status cur)"
  shows "events_of (maybe_set_run_terminated (Some r) status) st =
           [GetRun (info_run_id r), SetTerminated (info_run_id r) status]"
    and "store_of (maybe_set_run_terminated (Some r) status) st =
           st(info_run_id r \<mapsto> cur\<lparr>info_status := status\<rparr>)"
    and "result_of (maybe_set_run_terminated (Some r) status) st = Inr ()"
  using assms
  by (auto simp: maybe_set_run_terminated_def Let_def prog_simps
      client_get_run_simps client_set_terminated_simps split: option.splits)

lemma maybe_missing:
  assumes "st (info_run_id r) = None"
  shows "events_of (maybe_set_run_terminated (Some r) status) st = [GetRun (info_run_id r)]"
    and "store_of (maybe_set_run_terminated (Some r) status) st = st"
    and "result_of (maybe_set_run_terminated (Some r) status) st = Inl (Raised ''MlflowException'')"
  using assms
  by (auto simp: maybe_set_run_terminated_def Let_def prog_simps
      client_get_run_simps client_set_terminated_simps split: option.splits)

lemma maybe_none:
  "events_of (maybe_set_run_terminated None status) st = []"
  "store_of (maybe_set_run_terminated None status) st = st"
  "result_of (maybe_set_run_terminated None status) st = Inr ()"
  by (simp_all add: maybe_set_run_terminated_def prog_simps)

text \<open>Any number of reports in a row, the statuses all terminal.\<close>

lemma reports_terminal_none:
  assumes "terminal_in st (info_run_id r)"
  shows "filter (is_report rid)
           (events_of (foldr (\<lambda>s p. thn (maybe_set_run_terminated (Some r) s) p) ss (ret ())) st) = []"
  using assms
proof (induction ss)
  case Nil
  then show ?case by (simp add: prog_simps)
next
  case (Cons s ss)
  then show ?case by (simp add: prog_simps maybe_terminal)
qed

lemma reports_at_most_one:
  assumes "\<forall>s \<in> set ss. is_terminated s"
  shows "length (filter (is_report rid)
           (events_of (foldr (\<lambda>s p. thn (maybe_set_run_terminated (Some r) s) p) ss (ret ())) st)) \<le> 1"
  using assms
proof (induction ss)
  case Nil
  then show ?case by (simp add: prog_simps)
next
  case (Cons s ss)
  show ?case
  proof (cases "st (info_run_id r)")
    case None
    then show ?thesis by (simp add: prog_simps maybe_missing)
  next
    case (Some cur)
    show ?thesis
    proof (cases "is_terminated (info_status cur)")
      case True
      with Some have t: "terminal_in st (info_run_id r)" by (simp add: terminal_in_def)
      have "filter (is_report rid)
           (events_of (foldr (\<lambda>s p. thn (maybe_set_run_terminated (Some r) s) p) (s # ss) (ret ())) st) = []"
        using t by (rule reports_terminal_none)
      then show ?thesis by simp
    next
      case False
      have s: "is_terminated s" using Cons.prems by simp
      let ?st = "st(info_run_id r \<mapsto> cur\<lparr>info_status := s\<rparr>)"
      have t: "terminal_in ?st (info_run_id r)" using s by (simp add: terminal_in_def)
      have "filter (is_report rid)
           (events_of (foldr (\<lambda>s p. thn (maybe_set_run_terminated (Some r) s) p) ss (ret ())) ?st) = []"
        using t by (rule reports_terminal_none)
      then show ?thesis
        using Some False by (auto simp: prog_simps maybe_running)
    qed
  qed
qed


lemma submitted_wait_simps:
  "result_of (submitted_wait w sr) st = wait_returns w sr"
  "events_of (submitted_wait w sr) st = [Wait]"
  by (simp_all add: submitted_wait_def result_of_def events_of_def)

lemma maybe_events:
  assumes "st rid = Some cur" and "info_run_id r = rid"
  shows "events_of (maybe_set_run_terminated (Some r) status) st =
           GetRun rid # (if is_terminated (info_status cur) then [] else [SetTerminated rid status])"
  using assms
  by (auto simp: maybe_set_run_terminated_def Let_def prog_simps
      client_get_run_simps client_set_terminated_simps)

lemma maybe_reports_le:
  "length (filter (is_report rid) (events_of (maybe_set_run_terminated a status) st)) \<le> 1"
proof (cases a)
  case None
  then show ?thesis by (simp add: maybe_none)
next
  case (Some r)
  show ?thesis
  proof (cases "st (info_run_id r)")
    case None
    with Some show ?thesis by (simp add: maybe_missing)
  next
    case (Some cur)
    with \<open>a = Some r\<close> show ?thesis
      by (simp add: maybe_events [where st = st and rid = "info_run_id r" and cur = cur])
  qed
qed

lemma maybe_not_interrupt:
  "result_of (maybe_set_run_terminated a status) st \<noteq> Inl KeyboardInterrupt"
  by (auto simp: maybe_set_run_terminated_def Let_def prog_simps
      client_get_run_simps client_set_terminated_simps split: option.splits)

lemma wait_for_handler_events:
  "events_of (wait_for_handler sr a e) st =
     (if e = KeyboardInterrupt
      then Cancel # events_of (maybe_set_run_terminated a FAILED) st else [])"
  by (simp add: wait_for_handler_def submitted_cancel_def prog_simps split: sum.splits)

lemma wait_for_handler_result:
  "result_of (wait_for_handler sr a e) st \<noteq> Inr x"
  by (simp add: wait_for_handler_def submitted_cancel_def prog_simps split: sum.splits)

lemma wait_for_events:
  assumes "submitted_run_id sr = Some rid" and "st rid = Some cur"
  shows "events_of (wait_for w sr) st =
     [GetRun rid, Wait] @
     (case wait_returns w sr of
        Inr ok \<Rightarrow> events_of (maybe_set_run_terminated (Some cur) (if ok then FINISHED else FAILED))
                    (store_of (submitted_wait w sr) st)
      | Inl e \<Rightarrow> if e = KeyboardInterrupt
                 then Cancel # events_of (maybe_set_run_terminated (Some cur) FAILED)
                                 (store_of (submitted_wait w sr) st)
                 else [])"
  using assms maybe_not_interrupt [of "Some cur" FINISHED "store_of (submitted_wait w sr) st"]
    maybe_not_interrupt [of "Some cur" FAILED "store_of (submitted_wait w sr) st"]
  by (auto simp: wait_for_def Let_def prog_simps client_get_run_simps submitted_wait_simps
      wait_for_handler_events split: sum.splits)

lemma wait_for_reports_le:
  "length (filter (is_report rid) (events_of (wait_for w sr) st)) \<le> 1"
proof (cases "submitted_run_id sr")
  case None
  then show ?thesis
    using maybe_reports_le [of rid None]
    by (auto simp: wait_for_def Let_def prog_simps submitted_wait_simps wait_for_handler_events
        maybe_none split: sum.splits)
next
  case (Some r)
  show ?thesis
  proof (cases "st r")
    case None
    with Some show ?thesis
      by (auto simp: wait_for_def Let_def prog_simps client_get_run_simps wait_for_handler_events
          wait_for_handler_result split: sum.splits)
  next
    case (Some cur)
    show ?thesis
      unfolding wait_for_events [where sr = sr and rid = r and st = st and cur = cur,
          OF \<open>submitted_run_id sr = Some r\<close> Some]
      using maybe_reports_le [of rid "Some cur"]
      by (auto split: sum.splits)
  qed
qed

text \<open>
  Claim C1. Reporting a terminal status is guarded by a re-fetch. On a store that holds
  the run, \<open>maybe_set_run_terminated\<close> first fetches the record and writes the status
  only if the fetched status is not terminal; on a terminal record it writes nothing and
  leaves the store as it is, and after a write the record is terminal. So any number of
  reports in a row cause at most one write, and \<open>wait_for\<close> (FINISHED on success,
  FAILED on failure or interrupt) causes at most one.
\<close>

theorem terminal_status_report_guarded:
  assumes "st rid = Some cur" and "info_run_id cur = rid"
  shows
    "events_of (maybe_set_run_terminated (Some cur) status) st =
       GetRun rid # (if is_terminated (info_status cur) then [] else [SetTerminated rid status]) \<and>
     store_of (maybe_set_run_terminated (Some cur) status) st =
       (if is_terminated (info_status cur) then st else st(rid \<mapsto> cur\<lparr>info_status := status\<rparr>)) \<and>
     (is_terminated status \<longrightarrow>
        terminal_in (store_of (maybe_set_run_terminated (Some cur) status) st) rid) \<and>
     ((\<forall>s \<in> set ss. is_terminated s) \<longrightarrow>
        length (filter (is_report rid)
          (events_of (foldr (\<lambda>s p. thn (maybe_set_run_terminated (Some cur) s) p) ss (ret ())) st)) \<le> 1) \<and>
     (submitted_run_id sr = Some rid \<longrightarrow>
        events_of (wait_for w sr) st =
          [GetRun rid, Wait] @
          (case wait_returns w sr of
             Inr ok \<Rightarrow> events_of (maybe_set_run_terminated (Some cur) (if ok then FINISHED else FAILED))
                         (store_of (submitted_wait w sr) st)
           | Inl e \<Rightarrow> if e = KeyboardInterrupt
                      then Cancel # events_of (maybe_set_run_terminated (Some cur) FAILED)
                                      (store_of (submitted_wait w sr) st)
                      else [])) \<and>
     length (filter (is_report rid) (events_of (wait_for w sr) st)) \<le> 1"
proof -
  have e: "events_of (maybe_set_run_terminated (Some cur) status) st =
       GetRun rid # (if is_terminated (info_status cur) then [] else [SetTerminated rid status])"
    using assms by (rule maybe_events)
  have s: "store_of (maybe_set_run_terminated (Some cur) status) st =
       (if is_terminated (info_status cur) then st else st(rid \<mapsto> cur\<lparr>info_status := status\<rparr>))"
    using assms maybe_terminal(2) [of st cur status] maybe_running(2) [of st cur cur status]
    by (simp add: terminal_in_def)
  have t: "is_terminated status \<longrightarrow>
        terminal_in (store_of (maybe_set_run_terminated (Some cur) status) st) rid"
    unfolding s using assms by (simp add: terminal_in_def)
  have f: "(\<forall>s \<in> set ss. is_terminated s) \<longrightarrow>
        length (filter (is_report rid)
          (events_of (foldr (\<lambda>s p. thn (maybe_set_run_terminated (Some cur) s) p) ss (ret ())) st)) \<le> 1"
    using reports_at_most_one [of ss rid cur st] by blast
  have w: "submitted_run_id sr = Some rid \<longrightarrow>
        events_of (wait_for w sr) st =
          [GetRun rid, Wait] @
          (case wait_returns w sr of
             Inr ok \<Rightarrow> events_of (maybe_set_run_terminated (Some cur) (if ok then FINISHED else FAILED))
                         (store_of (submitted_wait w sr) st)
           | Inl e \<Rightarrow> if e = KeyboardInterrupt
                      then Cancel # events_of (maybe_set_run_terminated (Some cur) FAILED)
                                      (store_of (submitted_wait w sr) st)
                      else [])"
    using wait_for_events [of sr rid st cur w] assms(1) by blast
  from e s t f w wait_for_reports_le [of rid w sr st] show ?thesis by blast
qed


theorem terminal_status_report_guarded_witness:
  "example_store ''run0'' = Some example_run \<and> info_run_id example_run = ''run0'' \<and>
   is_terminated FINISHED \<and> is_terminated FAILED \<and>
   submitted_run_id (LocalSubmittedRun (Some ''run0'') []) = Some ''run0'' \<and>
   events_of (maybe_set_run_terminated (Some example_run) FINISHED) example_store =
     [GetRun ''run0'', SetTerminated ''run0'' FINISHED] \<and>
   terminal_in (store_of (maybe_set_run_terminated (Some example_run) FINISHED) example_store) ''run0'' \<and>
   length (filter (is_report ''run0'')
     (events_of (foldr (\<lambda>s p. thn (maybe_set_run_terminated (Some example_run) s) p)
        [FINISHED, FAILED] (ret ())) example_store)) \<le> 1 \<and>
   events_of (wait_for example_world (LocalSubmittedRun (Some ''run0'') [])) example_store =
     [GetRun ''run0'', Wait, GetRun ''run0'', SetTerminated ''run0'' FINISHED]"
proof -
  have a: "example_store ''run0'' = Some example_run" by (simp add: example_store_def)
  have b: "info_run_id example_run = ''run0''" by (simp add: example_run_def)
  have c: "\<not> is_terminated (info_status example_run)" by (simp add: example_run_def)
  have d: "store_of (submitted_wait example_world (LocalSubmittedRun (Some ''run0'') [])) example_store
      = example_store"
    by (simp add: submitted_wait_def store_of_def example_world_def)
  have e: "wait_returns example_world (LocalSubmittedRun (Some ''run0'') []) = Inr True"
    by (simp add: example_world_def)
  from terminal_status_report_guarded [where st = example_store and rid = "''run0''" and cur = example_run
      and status = FINISHED and ss = "[FINISHED, FAILED]"
      and sr = "LocalSubmittedRun (Some ''run0'') []" and w = example_world, OF a b]
  have "events_of (maybe_set_run_terminated (Some example_run) FINISHED) example_store =
       GetRun ''run0'' # (if is_terminated (info_status example_run) then []
          else [SetTerminated ''run0'' FINISHED])"
    and "is_terminated FINISHED \<longrightarrow>
        terminal_in (store_of (maybe_set_run_terminated (Some example_run) FINISHED) example_store) ''run0''"
    and "(\<forall>s \<in> set [FINISHED, FAILED]. is_terminated s) \<longrightarrow>
        length (filter (is_report ''run0'')
          (events_of (foldr (\<lambda>s p. thn (maybe_set_run_terminated (Some example_run) s) p)
             [FINISHED, FAILED] (ret ())) example_store)) \<le> 1"
    and "submitted_run_id (LocalSubmittedRun (Some ''run0'') []) = Some ''run0'' \<longrightarrow>
        events_of (wait_for example_world (LocalSubmittedRun (Some ''run0'') [])) example_store =
          [GetRun ''run0'', Wait] @
          (case wait_returns example_world (LocalSubmittedRun (Some ''run0'') []) of
             Inr ok \<Rightarrow> events_of (maybe_set_run_terminated (Some example_run) (if ok then FINISHED else FAILED))
                         (store_of (submitted_wait example_world (LocalSubmittedRun (Some ''run0'') [])) example_store)
           | Inl e \<Rightarrow> if e = KeyboardInterrupt
                      then Cancel # events_of (maybe_set_run_terminated (Some example_run) FAILED)
                                      (store_of (submitted_wait example_world (LocalSubmittedRun (Some ''run0'') [])) example_store)
                      else [])"
    by blast+
  then show ?thesis
    using a b c by (simp add: d e)
qed

section \<open>Properties of the git fetch\<close>

lemma unzip_repo_simps:
  "result_of (unzip_repo w z d) st =
     (case zipfile_extractall w z d of None \<Rightarrow> Inr () | Some e \<Rightarrow> Inl e)"
  "store_of (unzip_repo w z d) st = st"
  "events_of (unzip_repo w z d) st = [Unzip z d]"
  by (simp_all add: unzip_repo_def prog_simps)

lemma fetch_zip_repo_simps:
  "result_of (fetch_zip_repo w uri) st =
     (case requests_get w uri of
        Inl reason \<Rightarrow> Inl (ExecutionException (ZipRetrieveFailed reason))
      | Inr content \<Rightarrow> Inr (ZipBytes content))"
  "store_of (fetch_zip_repo w uri) st = st"
  "events_of (fetch_zip_repo w uri) st = [RequestsGet uri]"
  by (simp_all add: fetch_zip_repo_def prog_simps split: sum.splits)

lemma fetch_git_repo_store: "store_of (fetch_git_repo w uri version dst_dir) st = st"
  by (simp add: fetch_git_repo_def prog_simps split: sum.splits option.splits)

lemma fetch_git_repo_events:
  "events_of (fetch_git_repo w uri version dst_dir) st =
     [GitInit dst_dir, GitCreateRemote dst_dir ''origin'' uri, GitFetch dst_dir ''origin''] @
     (case git_fetch w uri of
        Inl e \<Rightarrow> []
      | Inr refs \<Rightarrow>
          (case version of
             Some v \<Rightarrow> [GitCheckout dst_dir v]
           | None \<Rightarrow>
               if ''master'' \<in> set refs
               then [GitCreateHead dst_dir ''master'' ''origin'' ''master'',
                     GitCheckoutHead dst_dir ''master'']
               else []))"
  by (simp add: fetch_git_repo_def prog_simps split: sum.splits option.splits)

lemma fetch_git_repo_result:
  "result_of (fetch_git_repo w uri version dst_dir) st =
     (case git_fetch w uri of
        Inl e \<Rightarrow> Inl e
      | Inr refs \<Rightarrow>
          (case version of
             Some v \<Rightarrow>
               (case git_checkout w uri v of
                  Some e \<Rightarrow> Inl (ExecutionException (CheckoutFailed v uri e))
                | None \<Rightarrow> Inr ())
           | None \<Rightarrow> if ''master'' \<in> set refs then Inr () else Inl (Raised ''AttributeError'')))"
  by (simp add: fetch_git_repo_def prog_simps split: sum.splits option.splits)

text \<open>
  Claim C9, as amended. When the fetch from the remote succeeds, \<open>fetch_git_repo\<close>
  initialises a repository at the destination, adds the source as the remote \<open>origin\<close>
  and fetches. With a version it then checks that version out, and a failing checkout
  raises the exception that carries the version, the source and git's diagnostic.
  Without a version it creates the local branch \<open>master\<close> from the remote's branch
  \<open>master\<close> and checks it out; a remote without that branch makes it raise.
\<close>

theorem fetch_git_repo_steps:
  assumes "git_fetch w uri = Inr refs"
  shows
    "events_of (fetch_git_repo w uri version dst_dir) st =
       [GitInit dst_dir, GitCreateRemote dst_dir ''origin'' uri, GitFetch dst_dir ''origin''] @
       (case version of
          Some v \<Rightarrow> [GitCheckout dst_dir v]
        | None \<Rightarrow>
            if ''master'' \<in> set refs
            then [GitCreateHead dst_dir ''master'' ''origin'' ''master'',
                  GitCheckoutHead dst_dir ''master'']
            else []) \<and>
     result_of (fetch_git_repo w uri version dst_dir) st =
       (case version of
          Some v \<Rightarrow>
            (case git_checkout w uri v of
               Some diagnostic \<Rightarrow> Inl (ExecutionException (CheckoutFailed v uri diagnostic))
             | None \<Rightarrow> Inr ())
        | None \<Rightarrow> if ''master'' \<in> set refs then Inr () else Inl (Raised ''AttributeError''))"
  using assms by (simp add: fetch_git_repo_events fetch_git_repo_result)

theorem fetch_git_repo_steps_witness:
  "git_fetch example_world ''https://example.com/repo.git'' = Inr [''main'', ''master''] \<and>
   events_of (fetch_git_repo example_world ''https://example.com/repo.git'' (Some ''feature-x'') ''/tmp/tmpdir'')
     example_store =
     [GitInit ''/tmp/tmpdir'', GitCreateRemote ''/tmp/tmpdir'' ''origin'' ''https://example.com/repo.git'',
      GitFetch ''/tmp/tmpdir'' ''origin'', GitCheckout ''/tmp/tmpdir'' ''feature-x''] \<and>
   result_of (fetch_git_repo example_world ''https://example.com/repo.git'' (Some ''feature-x'') ''/tmp/tmpdir'')
     example_store = Inr ()"
proof -
  have a: "git_fetch example_world ''https://example.com/repo.git'' = Inr [''main'', ''master'']"
    by (simp add: example_world_def)
  have b: "git_checkout example_world ''https://example.com/repo.git'' ''feature-x'' = None"
    by (simp add: example_world_def)
  from fetch_git_repo_steps [OF a, of "Some ''feature-x''" "''/tmp/tmpdir''" example_store] a b
  show ?thesis by simp
qed

text \<open>
  Claim C9 as stated fails: on a remote whose default branch is \<open>main\<close> the branch
  created and checked out is still \<open>master\<close>, from the remote's \<open>master\<close>, and no
  branch is created from the default branch.
\<close>

theorem fetch_git_repo_default_branch_counterexample:
  "git_remote_default_branch example_world ''https://example.com/repo.git'' = ''main'' \<and>
   events_of (fetch_git_repo example_world ''https://example.com/repo.git'' None ''/tmp/tmpdir'')
     example_store =
     [GitInit ''/tmp/tmpdir'', GitCreateRemote ''/tmp/tmpdir'' ''origin'' ''https://example.com/repo.git'',
      GitFetch ''/tmp/tmpdir'' ''origin'',
      GitCreateHead ''/tmp/tmpdir'' ''master'' ''origin'' ''master'',
      GitCheckoutHead ''/tmp/tmpdir'' ''master''] \<and>
   GitCreateHead ''/tmp/tmpdir'' ''main'' ''origin'' ''main'' \<notin>
     set (events_of (fetch_git_repo example_world ''https://example.com/repo.git'' None ''/tmp/tmpdir'')
       example_store)"
  by (simp add: fetch_git_repo_events example_world_def)

section \<open>Quiet programs\<close>

lemma quietD:
  assumes "quiet P p"
  shows "store_of p st = st" and "ev \<in> set (events_of p st) \<Longrightarrow> P ev"
  using assms by (auto simp: quiet_def)

lemma quiet_filter:
  assumes "quiet (\<lambda>ev. \<not> Q ev) p"
  shows "filter Q (events_of p st) = []"
  using assms by (auto simp: quiet_def filter_empty_conv)

lemma quiet_ret: "quiet P (ret x)"
  by (simp add: quiet_def prog_simps)

lemma quiet_raise: "quiet P (raise e)"
  by (simp add: quiet_def prog_simps)

lemma quiet_emit: "P ev \<Longrightarrow> quiet P (emit ev)"
  by (simp add: quiet_def prog_simps)

lemma quiet_call: "P ev \<Longrightarrow> quiet P (call ev r)"
  by (simp add: quiet_def prog_simps)

lemma quiet_call_unit: "P ev \<Longrightarrow> quiet P (call_unit ev r)"
  by (simp add: quiet_def prog_simps)

lemma quiet_of_result: "quiet P (of_result r)"
  by (simp add: quiet_def prog_simps)

lemma quiet_bnd:
  assumes "quiet P m" and "\<And>x. quiet P (f x)"
  shows "quiet P (bnd m f)"
  using assms by (auto simp: quiet_def prog_simps split: sum.splits)

lemma quiet_thn:
  assumes "quiet P m" and "quiet P n"
  shows "quiet P (thn m n)"
  using assms by (auto simp: quiet_def prog_simps split: sum.splits)

lemma quiet_try_except:
  assumes "quiet P m" and "\<And>e. quiet P (h e)"
  shows "quiet P (try_except m h)"
  using assms by (auto simp: quiet_def prog_simps split: sum.splits)

lemma quiet_try_finally:
  assumes "quiet P m" and "quiet P c"
  shows "quiet P (try_finally m c)"
  using assms by (auto simp: quiet_def prog_simps split: sum.splits)

lemma quiet_if:
  assumes "c \<Longrightarrow> quiet P a" and "\<not> c \<Longrightarrow> quiet P b"
  shows "quiet P (if c then a else b)"
  using assms by simp

lemma quiet_case_option:
  assumes "x = None \<Longrightarrow> quiet P a" and "\<And>y. x = Some y \<Longrightarrow> quiet P (b y)"
  shows "quiet P (case x of None \<Rightarrow> a | Some y \<Rightarrow> b y)"
  using assms by (cases x) simp_all

lemma quiet_case_sum:
  assumes "\<And>y. x = Inl y \<Longrightarrow> quiet P (a y)" and "\<And>y. x = Inr y \<Longrightarrow> quiet P (b y)"
  shows "quiet P (case x of Inl y \<Rightarrow> a y | Inr y \<Rightarrow> b y)"
  using assms by (cases x) simp_all

lemma quiet_case_prod:
  assumes "\<And>a b. x = (a, b) \<Longrightarrow> quiet P (f a b)"
  shows "quiet P (case x of (a, b) \<Rightarrow> f a b)"
  using assms by (cases x) simp_all

lemma quiet_let:
  assumes "quiet P (f x)"
  shows "quiet P (let y = x in f y)"
  using assms by simp

lemmas quiet_intros = quiet_ret quiet_raise quiet_emit quiet_call quiet_call_unit quiet_of_result
  quiet_bnd quiet_thn quiet_try_except quiet_try_finally quiet_if quiet_case_option
  quiet_case_sum quiet_case_prod quiet_let

section \<open>Properties of the fetcher\<close>

lemma takeWhile_absent:
  "c \<notin> set xs \<Longrightarrow> takeWhile (\<lambda>x. x \<noteq> c) xs = xs"
  by (induction xs) auto

lemma parse_subdirectory_base:
  assumes "parse_subdirectory uri = Inr (parsed_uri, subdirectory)"
  shows "parsed_uri = takeWhile (\<lambda>c. c \<noteq> CHR ''#'') uri"
proof (cases "CHR ''#'' \<in> set uri")
  case True
  have "take (str_find uri CHR ''#'') uri = takeWhile (\<lambda>c. c \<noteq> CHR ''#'') uri"
    unfolding str_find_def by (rule takeWhile_eq_take [symmetric])
  moreover have "parsed_uri = take (str_find uri CHR ''#'') uri"
    using assms True by (simp add: parse_subdirectory_def Let_def split: if_splits)
  ultimately show ?thesis by simp
next
  case False
  then have a: "takeWhile (\<lambda>c. c \<noteq> CHR ''#'') uri = uri"
    by (rule takeWhile_absent)
  have b: "parsed_uri = uri"
    using assms False by (simp add: parse_subdirectory_def Let_def split: if_splits)
  show ?thesis unfolding b by (rule a [symmetric])
qed

text \<open>A local reference has a local base: the base is a prefix of the reference.\<close>

lemma GIT_URI_REGEX_match_prefix:
  "GIT_URI_REGEX_match (takeWhile P s) \<Longrightarrow> GIT_URI_REGEX_match s"
proof (induction s)
  case Nil
  then show ?case by simp
next
  case (Cons c s)
  then show ?case
    by (auto simp: GIT_URI_REGEX_match_def split: if_splits)
qed

lemma is_local_uri_base:
  assumes "is_local_uri uri" and "parse_subdirectory uri = Inr (parsed_uri, subdirectory)"
  shows "is_local_uri parsed_uri"
  using assms GIT_URI_REGEX_match_prefix [of "\<lambda>c. c \<noteq> CHR ''#''" uri]
  by (auto simp: is_local_uri_def dest!: parse_subdirectory_base)

lemma quiet_fetch_git_repo:
  assumes "\<And>a b c. P (GitCreateRemote a b c)" and "\<And>a. P (GitInit a)" and "\<And>a b. P (GitFetch a b)"
    and "\<And>a b. P (GitCheckout a b)" and "\<And>a b c d. P (GitCreateHead a b c d)"
    and "\<And>a b. P (GitCheckoutHead a b)"
  shows "quiet P (fetch_git_repo w uri version dst_dir)"
  unfolding fetch_git_repo_def
  by (intro quiet_intros assms)

text \<open>
  \<open>fetch_project\<close> leaves the store alone, and its events are calls of the file
  system, of the archive download and of git.
\<close>

lemma quiet_fetch_project:
  assumes "\<And>a b c. P (GitCreateRemote a b c)" and "\<And>a. P (GitInit a)" and "\<And>a b. P (GitFetch a b)"
    and "\<And>a b. P (GitCheckout a b)" and "\<And>a b c d. P (GitCreateHead a b c d)"
    and "\<And>a b. P (GitCheckoutHead a b)" and "\<And>a b. P (Unzip a b)" and "\<And>a. P (RequestsGet a)"
    and "\<And>a b. P (CopyTree a b)" and "\<And>a. P (Mkdtemp a)"
  shows "quiet P (fetch_project w uri force_tempdir version)"
  unfolding fetch_project_def unzip_repo_def fetch_zip_repo_def
  by (intro quiet_intros quiet_fetch_git_repo assms)


lemma filter_bnd_quiet:
  assumes "\<And>x. quiet (\<lambda>ev. \<not> Q ev) (f x)"
  shows "filter Q (events_of (bnd m f) st) = filter Q (events_of m st)"
  using assms by (auto simp: prog_simps quiet_def filter_empty_conv split: sum.splits)

lemma fetch_project_store: "store_of (fetch_project w uri force_tempdir version) st = st"
  by (rule quietD(1) [of "\<lambda>ev. True"]) (rule quiet_fetch_project; simp)

lemma fetch_project_no_create_run:
  "filter is_create_run (events_of (fetch_project w uri force_tempdir version) st) = []"
  by (rule quiet_filter) (rule quiet_fetch_project; simp)

lemma fetch_project_mkdtemp:
  assumes "parse_subdirectory uri = Inr (parsed_uri, subdirectory)"
  shows "length (filter is_mkdtemp (events_of (fetch_project w uri force_tempdir version) st)) =
     (if force_tempdir \<or> is_zip_uri parsed_uri \<or> \<not> is_local_uri parsed_uri then 1 else 0)"
  unfolding fetch_project_def assms unzip_repo_def fetch_zip_repo_def
  apply (simp only: sum.case prod.case Let_def)
  apply (subst filter_bnd_quiet)
   apply (intro quiet_intros quiet_fetch_git_repo; simp)
  apply (simp add: prog_simps)
  done

lemma fetch_project_in_place:
  assumes "parse_subdirectory uri = Inr (parsed_uri, subdirectory)"
    and "\<not> force_tempdir" and "\<not> is_zip_uri parsed_uri" and "is_local_uri parsed_uri"
  shows "events_of (fetch_project w uri force_tempdir version) st = []"
    and "result_of (fetch_project w uri force_tempdir version) st =
      (if is_local_uri uri then
         (if version \<noteq> None then Inl (ExecutionException VersionOnlyForGit)
          else if os_path_exists w (os_path_abspath w (os_path_join w parsed_uri subdirectory))
          then Inr (os_path_abspath w (os_path_join w parsed_uri subdirectory))
          else Inl (ExecutionException (SubdirectoryNotFound subdirectory parsed_uri)))
       else Inl AssertionError)"
  using assms
  by (simp_all add: fetch_project_def Let_def prog_simps is_local_uri_def)

lemma fetch_project_temporary:
  assumes "parse_subdirectory uri = Inr (parsed_uri, subdirectory)"
    and "force_tempdir \<or> is_zip_uri parsed_uri \<or> \<not> is_local_uri parsed_uri"
    and "tempfile_mkdtemp w None = Inr d"
  shows "events_of (fetch_project w uri force_tempdir version) st =
      Mkdtemp None #
      (if is_zip_uri parsed_uri then
         (let zip_uri = (if is_file_uri parsed_uri
                         then os_path_join w (fst (urlparse_unquote w parsed_uri))
                                (snd (urlparse_unquote w parsed_uri))
                         else parsed_uri)
          in if is_local_uri zip_uri then [Unzip (ZipPath zip_uri) d]
             else RequestsGet zip_uri #
                  (case requests_get w zip_uri of
                     Inl reason \<Rightarrow> []
                   | Inr content \<Rightarrow> [Unzip (ZipBytes content) d]))
       else if is_local_uri uri then
         (if version \<noteq> None then [] else [CopyTree parsed_uri d])
       else if \<not> GIT_URI_REGEX_match parsed_uri then []
       else events_of (fetch_git_repo w parsed_uri version d) st)"
    and "result_of (fetch_project w uri force_tempdir version) st =
      (case
         (if is_zip_uri parsed_uri then
            (let zip_uri = (if is_file_uri parsed_uri
                            then os_path_join w (fst (urlparse_unquote w parsed_uri))
                                   (snd (urlparse_unquote w parsed_uri))
                            else parsed_uri)
             in if is_local_uri zip_uri
                then (case zipfile_extractall w (ZipPath zip_uri) d of
                        None \<Rightarrow> Inr () | Some e \<Rightarrow> Inl e)
                else (case requests_get w zip_uri of
                        Inl reason \<Rightarrow> Inl (ExecutionException (ZipRetrieveFailed reason))
                      | Inr content \<Rightarrow>
                          (case zipfile_extractall w (ZipBytes content) d of
                             None \<Rightarrow> Inr () | Some e \<Rightarrow> Inl e)))
          else if is_local_uri uri then
            (if version \<noteq> None then Inl (ExecutionException VersionOnlyForGit)
             else (case dir_util_copy_tree w parsed_uri d of
                     None \<Rightarrow> Inr () | Some e \<Rightarrow> Inl e))
          else if \<not> GIT_URI_REGEX_match parsed_uri then Inl AssertionError
          else result_of (fetch_git_repo w parsed_uri version d) st)
       of
         Inl e \<Rightarrow> Inl e
       | Inr u \<Rightarrow>
           if os_path_exists w (os_path_abspath w (os_path_join w d subdirectory))
           then Inr (os_path_abspath w (os_path_join w d subdirectory))
           else Inl (ExecutionException (SubdirectoryNotFound subdirectory d)))"
proof -
  let ?zip_uri = "if is_file_uri parsed_uri
                         then os_path_join w (fst (urlparse_unquote w parsed_uri))
                                (snd (urlparse_unquote w parsed_uri))
                         else parsed_uri"
  let ?tail = "\<lambda>dst_dir. (let res = os_path_abspath w (os_path_join w dst_dir subdirectory)
           in if \<not> os_path_exists w res
              then raise (ExecutionException (SubdirectoryNotFound subdirectory dst_dir))
              else ret res)"
  let ?mid = "\<lambda>dst_dir. (if is_zip_uri parsed_uri then
                 bnd (if is_local_uri ?zip_uri then ret (ZipPath ?zip_uri)
                          else fetch_zip_repo w ?zip_uri)
                       (\<lambda>zip_file. unzip_repo w zip_file dst_dir)
               else if is_local_uri uri then
                 (if version \<noteq> None
                  then raise (ExecutionException VersionOnlyForGit)
                  else call_unit (CopyTree parsed_uri dst_dir)
                              (dir_util_copy_tree w parsed_uri dst_dir))
               else
                 (if \<not> GIT_URI_REGEX_match parsed_uri then raise AssertionError
                  else fetch_git_repo w parsed_uri version dst_dir))"
  have ut: "(force_tempdir \<or> is_zip_uri parsed_uri \<or> \<not> is_local_uri parsed_uri) = True"
    using assms(2) by simp
  have fp: "fetch_project w uri force_tempdir version =
      bnd (call (Mkdtemp None) (Inr d)) (\<lambda>dst_dir. thn (?mid dst_dir) (?tail dst_dir))"
    unfolding fetch_project_def assms(1) assms(3) ut Let_def sum.case prod.case if_True
    by (rule refl)
  have ms: "store_of (?mid d) st = st"
    by (simp add: prog_simps unzip_repo_simps fetch_zip_repo_simps fetch_git_repo_store
        split: sum.splits)
  have te: "events_of (?tail d) st = []"
    by (simp add: Let_def prog_simps)
  have tr: "result_of (?tail d) st =
      (if os_path_exists w (os_path_abspath w (os_path_join w d subdirectory))
           then Inr (os_path_abspath w (os_path_join w d subdirectory))
           else Inl (ExecutionException (SubdirectoryNotFound subdirectory d)))"
    by (simp add: Let_def prog_simps)
  have me: "events_of (?mid d) st =
      (if is_zip_uri parsed_uri then
         (if is_local_uri ?zip_uri then [Unzip (ZipPath ?zip_uri) d]
             else RequestsGet ?zip_uri #
                  (case requests_get w ?zip_uri of
                     Inl reason \<Rightarrow> []
                   | Inr content \<Rightarrow> [Unzip (ZipBytes content) d]))
       else if is_local_uri uri then
         (if version \<noteq> None then [] else [CopyTree parsed_uri d])
       else if \<not> GIT_URI_REGEX_match parsed_uri then []
       else events_of (fetch_git_repo w parsed_uri version d) st)"
    by (simp add: prog_simps unzip_repo_simps fetch_zip_repo_simps split: sum.splits)
  have mr: "result_of (?mid d) st =
         (if is_zip_uri parsed_uri then
            (if is_local_uri ?zip_uri
                then (case zipfile_extractall w (ZipPath ?zip_uri) d of
                        None \<Rightarrow> Inr () | Some e \<Rightarrow> Inl e)
                else (case requests_get w ?zip_uri of
                        Inl reason \<Rightarrow> Inl (ExecutionException (ZipRetrieveFailed reason))
                      | Inr content \<Rightarrow>
                          (case zipfile_extractall w (ZipBytes content) d of
                             None \<Rightarrow> Inr () | Some e \<Rightarrow> Inl e)))
          else if is_local_uri uri then
            (if version \<noteq> None then Inl (ExecutionException VersionOnlyForGit)
             else (case dir_util_copy_tree w parsed_uri d of
                     None \<Rightarrow> Inr () | Some e \<Rightarrow> Inl e))
          else if \<not> GIT_URI_REGEX_match parsed_uri then Inl AssertionError
          else result_of (fetch_git_repo w parsed_uri version d) st)"
    by (simp add: prog_simps unzip_repo_simps fetch_zip_repo_simps split: sum.splits)
  have c: "\<And>r :: error + unit. (case r of Inl e \<Rightarrow> [] | Inr x \<Rightarrow> ([] :: event list)) = []"
    by (simp split: sum.splits)
  have "events_of (fetch_project w uri force_tempdir version) st = Mkdtemp None # events_of (?mid d) st"
    unfolding fp by (simp only: bnd_simps thn_simps call_simps ms te c sum.case append.simps append_Nil2)
  then show "events_of (fetch_project w uri force_tempdir version) st =
      Mkdtemp None #
      (if is_zip_uri parsed_uri then
         (let zip_uri = (if is_file_uri parsed_uri
                         then os_path_join w (fst (urlparse_unquote w parsed_uri))
                                (snd (urlparse_unquote w parsed_uri))
                         else parsed_uri)
          in if is_local_uri zip_uri then [Unzip (ZipPath zip_uri) d]
             else RequestsGet zip_uri #
                  (case requests_get w zip_uri of
                     Inl reason \<Rightarrow> []
                   | Inr content \<Rightarrow> [Unzip (ZipBytes content) d]))
       else if is_local_uri uri then
         (if version \<noteq> None then [] else [CopyTree parsed_uri d])
       else if \<not> GIT_URI_REGEX_match parsed_uri then []
       else events_of (fetch_git_repo w parsed_uri version d) st)"
    unfolding me Let_def .
  have "result_of (fetch_project w uri force_tempdir version) st =
      (case result_of (?mid d) st of Inl e \<Rightarrow> Inl e | Inr u \<Rightarrow> result_of (?tail d) st)"
    unfolding fp by (simp only: bnd_simps thn_simps call_simps ms sum.case)
  then show "result_of (fetch_project w uri force_tempdir version) st =
      (case
         (if is_zip_uri parsed_uri then
            (let zip_uri = (if is_file_uri parsed_uri
                            then os_path_join w (fst (urlparse_unquote w parsed_uri))
                                   (snd (urlparse_unquote w parsed_uri))
                            else parsed_uri)
             in if is_local_uri zip_uri
                then (case zipfile_extractall w (ZipPath zip_uri) d of
                        None \<Rightarrow> Inr () | Some e \<Rightarrow> Inl e)
                else (case requests_get w zip_uri of
                        Inl reason \<Rightarrow> Inl (ExecutionException (ZipRetrieveFailed reason))
                      | Inr content \<Rightarrow>
                          (case zipfile_extractall w (ZipBytes content) d of
                             None \<Rightarrow> Inr () | Some e \<Rightarrow> Inl e)))
          else if is_local_uri uri then
            (if version \<noteq> None then Inl (ExecutionException VersionOnlyForGit)
             else (case dir_util_copy_tree w parsed_uri d of
                     None \<Rightarrow> Inr () | Some e \<Rightarrow> Inl e))
          else if \<not> GIT_URI_REGEX_match parsed_uri then Inl AssertionError
          else result_of (fetch_git_repo w parsed_uri version d) st)
       of
         Inl e \<Rightarrow> Inl e
       | Inr u \<Rightarrow>
           if os_path_exists w (os_path_abspath w (os_path_join w d subdirectory))
           then Inr (os_path_abspath w (os_path_join w d subdirectory))
           else Inl (ExecutionException (SubdirectoryNotFound subdirectory d)))"
    unfolding mr tr unfolding Let_def .
qed


lemma fetch_project_mkdtemp_fails:
  assumes "parse_subdirectory uri = Inr (parsed_uri, subdirectory)"
    and "force_tempdir \<or> is_zip_uri parsed_uri \<or> \<not> is_local_uri parsed_uri"
    and "tempfile_mkdtemp w None = Inl e"
  shows "events_of (fetch_project w uri force_tempdir version) st = [Mkdtemp None]"
    and "result_of (fetch_project w uri force_tempdir version) st = Inl e"
proof -
  have ut: "(force_tempdir \<or> is_zip_uri parsed_uri \<or> \<not> is_local_uri parsed_uri) = True"
    using assms(2) by simp
  show "events_of (fetch_project w uri force_tempdir version) st = [Mkdtemp None]"
    unfolding fetch_project_def assms(1) assms(3) ut Let_def sum.case prod.case if_True
    by (simp add: bnd_simps call_simps)
  show "result_of (fetch_project w uri force_tempdir version) st = Inl e"
    unfolding fetch_project_def assms(1) assms(3) ut Let_def sum.case prod.case if_True
    by (simp add: bnd_simps call_simps)
qed

lemma git_base_not_local:
  assumes "parse_subdirectory uri = Inr (parsed_uri, subdirectory)"
    and "\<not> is_local_uri parsed_uri"
  shows "\<not> is_local_uri uri" and "GIT_URI_REGEX_match parsed_uri"
  using assms is_local_uri_base [of uri parsed_uri subdirectory]
  by (auto simp: is_local_uri_def)

lemma fetch_project_fetched:
  assumes "parse_subdirectory uri = Inr (parsed_uri, subdirectory)"
    and "result_of (fetch_project w uri False version) st = Inr work_dir"
  shows "\<not> is_zip_uri parsed_uri \<and> is_local_uri parsed_uri \<longrightarrow>
           events_of (fetch_project w uri False version) st = [] \<and>
           work_dir = os_path_abspath w (os_path_join w parsed_uri subdirectory)"
    and "tempfile_mkdtemp w None = Inr d \<Longrightarrow> is_zip_uri parsed_uri \<Longrightarrow>
           work_dir = os_path_abspath w (os_path_join w d subdirectory) \<and>
           events_of (fetch_project w uri False version) st =
             Mkdtemp None #
             (let zip_uri = (if is_file_uri parsed_uri
                             then os_path_join w (fst (urlparse_unquote w parsed_uri))
                                    (snd (urlparse_unquote w parsed_uri))
                             else parsed_uri)
              in if is_local_uri zip_uri then [Unzip (ZipPath zip_uri) d]
                 else RequestsGet zip_uri #
                      (case requests_get w zip_uri of
                         Inl reason \<Rightarrow> []
                       | Inr content \<Rightarrow> [Unzip (ZipBytes content) d]))"
    and "tempfile_mkdtemp w None = Inr d \<Longrightarrow> \<not> is_zip_uri parsed_uri \<Longrightarrow>
         \<not> is_local_uri parsed_uri \<Longrightarrow>
           work_dir = os_path_abspath w (os_path_join w d subdirectory) \<and>
           events_of (fetch_project w uri False version) st =
             [Mkdtemp None, GitInit d, GitCreateRemote d ''origin'' parsed_uri,
              GitFetch d ''origin''] @
             (case version of
                Some v \<Rightarrow> [GitCheckout d v]
              | None \<Rightarrow> [GitCreateHead d ''master'' ''origin'' ''master'',
                          GitCheckoutHead d ''master''])"
proof -
  show "\<not> is_zip_uri parsed_uri \<and> is_local_uri parsed_uri \<longrightarrow>
           events_of (fetch_project w uri False version) st = [] \<and>
           work_dir = os_path_abspath w (os_path_join w parsed_uri subdirectory)"
    using fetch_project_in_place [OF assms(1), of False w version st] assms(2)
    by (auto split: if_splits)
next
  assume m: "tempfile_mkdtemp w None = Inr d" and z: "is_zip_uri parsed_uri"
  have u: "False \<or> is_zip_uri parsed_uri \<or> \<not> is_local_uri parsed_uri"
    using z by simp
  note t = fetch_project_temporary [OF assms(1) u m, of version st]
  have a: "work_dir = os_path_abspath w (os_path_join w d subdirectory)"
    using assms(2) unfolding t(2) by (simp split: sum.splits if_splits)
  have b: "events_of (fetch_project w uri False version) st =
             Mkdtemp None #
             (let zip_uri = (if is_file_uri parsed_uri
                             then os_path_join w (fst (urlparse_unquote w parsed_uri))
                                    (snd (urlparse_unquote w parsed_uri))
                             else parsed_uri)
              in if is_local_uri zip_uri then [Unzip (ZipPath zip_uri) d]
                 else RequestsGet zip_uri #
                      (case requests_get w zip_uri of
                         Inl reason \<Rightarrow> []
                       | Inr content \<Rightarrow> [Unzip (ZipBytes content) d]))"
    unfolding t(1) using z by simp
  from a b show "work_dir = os_path_abspath w (os_path_join w d subdirectory) \<and>
           events_of (fetch_project w uri False version) st =
             Mkdtemp None #
             (let zip_uri = (if is_file_uri parsed_uri
                             then os_path_join w (fst (urlparse_unquote w parsed_uri))
                                    (snd (urlparse_unquote w parsed_uri))
                             else parsed_uri)
              in if is_local_uri zip_uri then [Unzip (ZipPath zip_uri) d]
                 else RequestsGet zip_uri #
                      (case requests_get w zip_uri of
                         Inl reason \<Rightarrow> []
                       | Inr content \<Rightarrow> [Unzip (ZipBytes content) d]))"
    by (rule conjI)
next
  assume m: "tempfile_mkdtemp w None = Inr d" and z: "\<not> is_zip_uri parsed_uri"
    and l: "\<not> is_local_uri parsed_uri"
  have u: "False \<or> is_zip_uri parsed_uri \<or> \<not> is_local_uri parsed_uri"
    using l by simp
  note g = git_base_not_local [OF assms(1) l]
  note t = fetch_project_temporary [OF assms(1) u m, of version st]
  have a: "work_dir = os_path_abspath w (os_path_join w d subdirectory)"
    using assms(2) unfolding t(2) by (simp split: sum.splits if_splits)
  have r: "result_of (fetch_git_repo w parsed_uri version d) st = Inr ()"
    using assms(2) z g unfolding t(2) by (simp split: sum.splits)
  have e: "events_of (fetch_project w uri False version) st =
      Mkdtemp None # events_of (fetch_git_repo w parsed_uri version d) st"
    unfolding t(1) using z g by simp
  have b: "events_of (fetch_git_repo w parsed_uri version d) st =
      [GitInit d, GitCreateRemote d ''origin'' parsed_uri, GitFetch d ''origin''] @
             (case version of
                Some v \<Rightarrow> [GitCheckout d v]
              | None \<Rightarrow> [GitCreateHead d ''master'' ''origin'' ''master'',
                          GitCheckoutHead d ''master''])"
    using r unfolding fetch_git_repo_events fetch_git_repo_result
    by (simp split: sum.splits option.splits if_splits)
  show "work_dir = os_path_abspath w (os_path_join w d subdirectory) \<and>
           events_of (fetch_project w uri False version) st =
             [Mkdtemp None, GitInit d, GitCreateRemote d ''origin'' parsed_uri,
              GitFetch d ''origin''] @
             (case version of
                Some v \<Rightarrow> [GitCheckout d v]
              | None \<Rightarrow> [GitCreateHead d ''master'' ''origin'' ''master'',
                          GitCheckoutHead d ''master''])"
    unfolding e b using a by simp
qed

lemma fetch_project_local_version:
  assumes "parse_subdirectory uri = Inr (parsed_uri, subdirectory)"
    and "is_local_uri uri" and "\<not> is_zip_uri parsed_uri" and "version \<noteq> None"
    and "force_tempdir \<longrightarrow> (\<exists>d. tempfile_mkdtemp w None = Inr d)"
  shows "result_of (fetch_project w uri force_tempdir version) st =
           Inl (ExecutionException VersionOnlyForGit)"
    and "events_of (fetch_project w uri force_tempdir version) st =
           (if force_tempdir then [Mkdtemp None] else [])"
  using assms is_local_uri_base [OF assms(2) assms(1)]
  by (auto simp: fetch_project_def Let_def prog_simps)

text \<open>
  Claim C4, as amended. A reference without a scheme-like prefix whose base is not an
  archive, fetched with a version: the fetch raises an \<^verbatim>\<open>ExecutionException\<close> (the one
  that says a version is only supported for git, when the reference parses), and
  nothing is copied or unpacked; at most the temporary directory has been made, when
  that was forced.
\<close>

theorem fetch_project_local_version_rejected:
  assumes "is_local_uri uri" and "version \<noteq> None"
    and "\<not> is_zip_uri (takeWhile (\<lambda>c. c \<noteq> CHR ''#'') uri)"
    and "force_tempdir \<longrightarrow> (\<exists>d. tempfile_mkdtemp w None = Inr d)"
  shows "is_execution_exception (result_of (fetch_project w uri force_tempdir version) st) \<and>
         (\<forall>parsed_uri subdirectory. parse_subdirectory uri = Inr (parsed_uri, subdirectory) \<longrightarrow>
            result_of (fetch_project w uri force_tempdir version) st =
              Inl (ExecutionException VersionOnlyForGit)) \<and>
         (\<forall>ev \<in> set (events_of (fetch_project w uri force_tempdir version) st). is_mkdtemp ev)"
proof (cases "parse_subdirectory uri")
  case (Inl e)
  then have "e = ExecutionException DotInSubdirectory"
    by (auto simp: parse_subdirectory_def Let_def split: if_splits)
  with Inl show ?thesis
    by (simp add: fetch_project_def prog_simps)
next
  case (Inr ps)
  obtain p s where ps: "ps = (p, s)" by (cases ps)
  have parse: "parse_subdirectory uri = Inr (p, s)" using Inr ps by simp
  have z: "\<not> is_zip_uri p"
    using assms(3) parse_subdirectory_base [OF parse] by simp
  note r = fetch_project_local_version [OF parse assms(1) z assms(2) assms(4), of st]
  show ?thesis
    using parse by (simp add: r)
qed

theorem fetch_project_local_version_rejected_witness:
  "is_local_uri ''/tmp/proj#sub'' \<and> Some ''v1'' \<noteq> None \<and>
   \<not> is_zip_uri (takeWhile (\<lambda>c. c \<noteq> CHR ''#'') ''/tmp/proj#sub'') \<and>
   parse_subdirectory ''/tmp/proj#sub'' = Inr (''/tmp/proj'', ''sub'') \<and>
   result_of (fetch_project example_world ''/tmp/proj#sub'' False (Some ''v1'')) example_store =
     Inl (ExecutionException VersionOnlyForGit) \<and>
   list_all is_mkdtemp
     (events_of (fetch_project example_world ''/tmp/proj#sub'' False (Some ''v1'')) example_store)"
proof -
  have a: "is_local_uri ''/tmp/proj#sub''"
    by (simp add: is_local_uri_def GIT_URI_REGEX_match_def)
  have b: "Some ''v1'' \<noteq> None" by simp
  have c: "\<not> is_zip_uri (takeWhile (\<lambda>c. c \<noteq> CHR ''#'') ''/tmp/proj#sub'')"
    by (simp add: is_zip_uri_def ZIP_URI_REGEX_match_def zip_tail_def)
  have d: "False \<longrightarrow> (\<exists>d. tempfile_mkdtemp example_world None = Inr d)" by simp
  have p: "parse_subdirectory ''/tmp/proj#sub'' = Inr (''/tmp/proj'', ''sub'')"
    by (simp add: parse_subdirectory_def str_find_def)
  note t = fetch_project_local_version_rejected [OF a b c d, of example_store]
  from t p have r: "result_of (fetch_project example_world ''/tmp/proj#sub'' False (Some ''v1''))
      example_store = Inl (ExecutionException VersionOnlyForGit)"
    by blast
  from t have e: "list_all is_mkdtemp
      (events_of (fetch_project example_world ''/tmp/proj#sub'' False (Some ''v1'')) example_store)"
    unfolding list_all_iff by blast
  from a b c p r e show ?thesis by blast
qed

text \<open>
  Claim C4 as stated fails on a local archive: the archive branch comes first and does
  not look at the version, so the fetch unpacks the archive and returns.
\<close>

theorem fetch_project_local_archive_version_counterexample:
  "is_local_uri ''/tmp/proj.zip'' \<and>
   result_of (fetch_project example_world ''/tmp/proj.zip'' False (Some ''v1'')) example_store =
     Inr ''/tmp/tmpdir'' \<and>
   events_of (fetch_project example_world ''/tmp/proj.zip'' False (Some ''v1'')) example_store =
     [Mkdtemp None, Unzip (ZipPath ''/tmp/proj.zip'') ''/tmp/tmpdir'']"
proof -
  have p: "parse_subdirectory ''/tmp/proj.zip'' = Inr (''/tmp/proj.zip'', '''')"
    by (simp add: parse_subdirectory_def)
  have z: "is_zip_uri ''/tmp/proj.zip''"
    by (simp add: is_zip_uri_def ZIP_URI_REGEX_match_def zip_tail_def)
  have f: "\<not> is_file_uri ''/tmp/proj.zip''"
    by (simp add: is_file_uri_def FILE_URI_REGEX_match_def)
  have l: "is_local_uri ''/tmp/proj.zip''"
    by (simp add: is_local_uri_def GIT_URI_REGEX_match_def)
  have w: "tempfile_mkdtemp example_world None = Inr ''/tmp/tmpdir''"
    "zipfile_extractall example_world (ZipPath ''/tmp/proj.zip'') ''/tmp/tmpdir'' = None"
    "os_path_abspath example_world (os_path_join example_world ''/tmp/tmpdir'' '''') = ''/tmp/tmpdir''"
    "os_path_exists example_world ''/tmp/tmpdir''"
    by (simp_all add: example_world_def posix_join_def)
  show ?thesis
    by (simp add: fetch_project_def p z f l w Let_def prog_simps unzip_repo_simps)
qed

lemma example_paths:
  "os_path_abspath example_world (os_path_join example_world ''/tmp/proj'' ''sub'') = ''/tmp/proj/sub''"
  "os_path_abspath example_world (os_path_join example_world ''/tmp/tmpdir'' ''sub'') = ''/tmp/tmpdir/sub''"
  "os_path_abspath example_world (os_path_join example_world ''/tmp/tmpdir'' '''') = ''/tmp/tmpdir''"
  "os_path_exists example_world p"
  "tempfile_mkdtemp example_world None = Inr ''/tmp/tmpdir''"
  by (simp_all add: example_world_def posix_join_def)

lemma example_references:
  "parse_subdirectory ''/tmp/proj#sub'' = Inr (''/tmp/proj'', ''sub'')"
  "parse_subdirectory ''/tmp/proj'' = Inr (''/tmp/proj'', '''')"
  "parse_subdirectory ''https://example.com/repo.git#sub'' = Inr (''https://example.com/repo.git'', ''sub'')"
  "parse_subdirectory ''https://example.com/repo.git'' = Inr (''https://example.com/repo.git'', '''')"
  "parse_subdirectory ''https://example.com/proj.zip'' = Inr (''https://example.com/proj.zip'', '''')"
  "\<not> is_zip_uri ''/tmp/proj''"
  "\<not> is_zip_uri ''https://example.com/repo.git''"
  "is_zip_uri ''https://example.com/proj.zip''"
  "is_local_uri ''/tmp/proj''"
  "is_local_uri ''/tmp/proj#sub''"
  "\<not> is_local_uri ''https://example.com/repo.git''"
  "\<not> is_local_uri ''https://example.com/repo.git#sub''"
  "\<not> is_local_uri ''https://example.com/proj.zip''"
  "\<not> is_file_uri ''https://example.com/proj.zip''"
  by (simp_all add: parse_subdirectory_def str_find_def is_zip_uri_def ZIP_URI_REGEX_match_def
      zip_tail_def is_local_uri_def GIT_URI_REGEX_match_def is_file_uri_def FILE_URI_REGEX_match_def)

text \<open>
  Claim C5. For a reference that parses, \<open>fetch_project\<close> makes a temporary directory
  (once) exactly when the flag is set, the base is an archive or the base is not local.
  A plain local base without the flag is used in place: no event at all, any result is
  the base joined with the subdirectory, and that is the result when the reference is
  local, no version is asked for and the directory exists.
  In the other case the project is materialized into the directory \<open>d\<close> that
  \<^verbatim>\<open>mkdtemp\<close> gave: right after \<^verbatim>\<open>mkdtemp\<close> the archive is unpacked into \<open>d\<close> (downloaded
  first when it is not a local file), or the local tree is copied into \<open>d\<close>, or the
  repository is initialised, fetched and checked out in \<open>d\<close>; any result is \<open>d\<close> joined
  with the subdirectory, and that is the result when the materialization succeeds and
  the joined directory exists. When \<^verbatim>\<open>mkdtemp\<close> itself raises, nothing else happens.
\<close>

theorem fetch_project_temporary_directory:
  assumes "parse_subdirectory uri = Inr (parsed_uri, subdirectory)"
  shows
    "length (filter is_mkdtemp (events_of (fetch_project w uri force_tempdir version) st)) =
       (if force_tempdir \<or> is_zip_uri parsed_uri \<or> \<not> is_local_uri parsed_uri then 1 else 0) \<and>
     (\<not> force_tempdir \<and> \<not> is_zip_uri parsed_uri \<and> is_local_uri parsed_uri \<longrightarrow>
        events_of (fetch_project w uri force_tempdir version) st = [] \<and>
        (\<forall>res. result_of (fetch_project w uri force_tempdir version) st = Inr res \<longrightarrow>
           res = os_path_abspath w (os_path_join w parsed_uri subdirectory)) \<and>
        (is_local_uri uri \<and> version = None \<and>
         os_path_exists w (os_path_abspath w (os_path_join w parsed_uri subdirectory)) \<longrightarrow>
           result_of (fetch_project w uri force_tempdir version) st =
             Inr (os_path_abspath w (os_path_join w parsed_uri subdirectory)))) \<and>
     (force_tempdir \<or> is_zip_uri parsed_uri \<or> \<not> is_local_uri parsed_uri \<longrightarrow>
        (\<forall>e. tempfile_mkdtemp w None = Inl e \<longrightarrow>
           events_of (fetch_project w uri force_tempdir version) st = [Mkdtemp None] \<and>
           result_of (fetch_project w uri force_tempdir version) st = Inl e) \<and>
        (\<forall>d. tempfile_mkdtemp w None = Inr d \<longrightarrow>
           events_of (fetch_project w uri force_tempdir version) st =
             Mkdtemp None #
             (if is_zip_uri parsed_uri then
                (let zip_uri = (if is_file_uri parsed_uri
                                then os_path_join w (fst (urlparse_unquote w parsed_uri))
                                       (snd (urlparse_unquote w parsed_uri))
                                else parsed_uri)
                 in if is_local_uri zip_uri then [Unzip (ZipPath zip_uri) d]
                    else RequestsGet zip_uri #
                         (case requests_get w zip_uri of
                            Inl reason \<Rightarrow> []
                          | Inr content \<Rightarrow> [Unzip (ZipBytes content) d]))
              else if is_local_uri uri then
                (if version \<noteq> None then [] else [CopyTree parsed_uri d])
              else if \<not> GIT_URI_REGEX_match parsed_uri then []
              else [GitInit d, GitCreateRemote d ''origin'' parsed_uri, GitFetch d ''origin''] @
                   (case git_fetch w parsed_uri of
                      Inl e \<Rightarrow> []
                    | Inr refs \<Rightarrow>
                        (case version of
                           Some v \<Rightarrow> [GitCheckout d v]
                         | None \<Rightarrow>
                             if ''master'' \<in> set refs
                             then [GitCreateHead d ''master'' ''origin'' ''master'',
                                   GitCheckoutHead d ''master'']
                             else []))) \<and>
           (\<forall>res. result_of (fetch_project w uri force_tempdir version) st = Inr res \<longrightarrow>
              res = os_path_abspath w (os_path_join w d subdirectory)) \<and>
           result_of (fetch_project w uri force_tempdir version) st =
             (case
                (if is_zip_uri parsed_uri then
                   (let zip_uri = (if is_file_uri parsed_uri
                                   then os_path_join w (fst (urlparse_unquote w parsed_uri))
                                          (snd (urlparse_unquote w parsed_uri))
                                   else parsed_uri)
                    in if is_local_uri zip_uri
                       then (case zipfile_extractall w (ZipPath zip_uri) d of
                               None \<Rightarrow> Inr () | Some e \<Rightarrow> Inl e)
                       else (case requests_get w zip_uri of
                               Inl reason \<Rightarrow> Inl (ExecutionException (ZipRetrieveFailed reason))
                             | Inr content \<Rightarrow>
                                 (case zipfile_extractall w (ZipBytes content) d of
                                    None \<Rightarrow> Inr () | Some e \<Rightarrow> Inl e)))
                 else if is_local_uri uri then
                   (if version \<noteq> None then Inl (ExecutionException VersionOnlyForGit)
                    else (case dir_util_copy_tree w parsed_uri d of
                            None \<Rightarrow> Inr () | Some e \<Rightarrow> Inl e))
                 else if \<not> GIT_URI_REGEX_match parsed_uri then Inl AssertionError
                 else result_of (fetch_git_repo w parsed_uri version d) st)
              of
                Inl e \<Rightarrow> Inl e
              | Inr u \<Rightarrow>
                  if os_path_exists w (os_path_abspath w (os_path_join w d subdirectory))
                  then Inr (os_path_abspath w (os_path_join w d subdirectory))
                  else Inl (ExecutionException (SubdirectoryNotFound subdirectory d)))))"
  (is "?count \<and> ?in_place \<and> ?temporary")
proof -
  have a: ?count
    using assms by (rule fetch_project_mkdtemp)
  have b: ?in_place
    using fetch_project_in_place [OF assms, of force_tempdir w version st]
    by (auto split: if_splits)
  have c: ?temporary
  proof (intro impI conjI allI)
    fix e
    assume u: "force_tempdir \<or> is_zip_uri parsed_uri \<or> \<not> is_local_uri parsed_uri"
      and m: "tempfile_mkdtemp w None = Inl e"
    show "events_of (fetch_project w uri force_tempdir version) st = [Mkdtemp None]"
      using assms u m by (rule fetch_project_mkdtemp_fails(1))
    show "result_of (fetch_project w uri force_tempdir version) st = Inl e"
      using assms u m by (rule fetch_project_mkdtemp_fails(2))
  next
    fix d
    assume u: "force_tempdir \<or> is_zip_uri parsed_uri \<or> \<not> is_local_uri parsed_uri"
      and m: "tempfile_mkdtemp w None = Inr d"
    note t = fetch_project_temporary [OF assms u m, of version st]
    show "events_of (fetch_project w uri force_tempdir version) st =
             Mkdtemp None #
             (if is_zip_uri parsed_uri then
                (let zip_uri = (if is_file_uri parsed_uri
                                then os_path_join w (fst (urlparse_unquote w parsed_uri))
                                       (snd (urlparse_unquote w parsed_uri))
                                else parsed_uri)
                 in if is_local_uri zip_uri then [Unzip (ZipPath zip_uri) d]
                    else RequestsGet zip_uri #
                         (case requests_get w zip_uri of
                            Inl reason \<Rightarrow> []
                          | Inr content \<Rightarrow> [Unzip (ZipBytes content) d]))
              else if is_local_uri uri then
                (if version \<noteq> None then [] else [CopyTree parsed_uri d])
              else if \<not> GIT_URI_REGEX_match parsed_uri then []
              else [GitInit d, GitCreateRemote d ''origin'' parsed_uri, GitFetch d ''origin''] @
                   (case git_fetch w parsed_uri of
                      Inl e \<Rightarrow> []
                    | Inr refs \<Rightarrow>
                        (case version of
                           Some v \<Rightarrow> [GitCheckout d v]
                         | None \<Rightarrow>
                             if ''master'' \<in> set refs
                             then [GitCreateHead d ''master'' ''origin'' ''master'',
                                   GitCheckoutHead d ''master'']
                             else [])))"
      unfolding t(1) fetch_git_repo_events by (rule refl)
    show "result_of (fetch_project w uri force_tempdir version) st =
             (case
                (if is_zip_uri parsed_uri then
                   (let zip_uri = (if is_file_uri parsed_uri
                                   then os_path_join w (fst (urlparse_unquote w parsed_uri))
                                          (snd (urlparse_unquote w parsed_uri))
                                   else parsed_uri)
                    in if is_local_uri zip_uri
                       then (case zipfile_extractall w (ZipPath zip_uri) d of
                               None \<Rightarrow> Inr () | Some e \<Rightarrow> Inl e)
                       else (case requests_get w zip_uri of
                               Inl reason \<Rightarrow> Inl (ExecutionException (ZipRetrieveFailed reason))
                             | Inr content \<Rightarrow>
                                 (case zipfile_extractall w (ZipBytes content) d of
                                    None \<Rightarrow> Inr () | Some e \<Rightarrow> Inl e)))
                 else if is_local_uri uri then
                   (if version \<noteq> None then Inl (ExecutionException VersionOnlyForGit)
                    else (case dir_util_copy_tree w parsed_uri d of
                            None \<Rightarrow> Inr () | Some e \<Rightarrow> Inl e))
                 else if \<not> GIT_URI_REGEX_match parsed_uri then Inl AssertionError
                 else result_of (fetch_git_repo w parsed_uri version d) st)
              of
                Inl e \<Rightarrow> Inl e
              | Inr u \<Rightarrow>
                  if os_path_exists w (os_path_abspath w (os_path_join w d subdirectory))
                  then Inr (os_path_abspath w (os_path_join w d subdirectory))
                  else Inl (ExecutionException (SubdirectoryNotFound subdirectory d)))"
      by (rule t(2))
    fix res
    assume r: "result_of (fetch_project w uri force_tempdir version) st = Inr res"
    show "res = os_path_abspath w (os_path_join w d subdirectory)"
      using r unfolding t(2) by (simp split: sum.splits if_splits)
  qed
  from a b c show ?thesis by blast
qed

theorem fetch_project_temporary_directory_witness:
  "parse_subdirectory ''/tmp/proj#sub'' = Inr (''/tmp/proj'', ''sub'') \<and>
   \<not> is_zip_uri ''/tmp/proj'' \<and> is_local_uri ''/tmp/proj'' \<and>
   is_local_uri ''/tmp/proj#sub'' \<and>
   os_path_exists example_world ''/tmp/proj/sub'' \<and>
   length (filter is_mkdtemp
     (events_of (fetch_project example_world ''/tmp/proj#sub'' False None) example_store)) = 0 \<and>
   events_of (fetch_project example_world ''/tmp/proj#sub'' False None) example_store = [] \<and>
   result_of (fetch_project example_world ''/tmp/proj#sub'' False None) example_store =
     Inr ''/tmp/proj/sub'' \<and>
   tempfile_mkdtemp example_world None = Inr ''/tmp/tmpdir'' \<and>
   parse_subdirectory ''https://example.com/repo.git#sub'' =
     Inr (''https://example.com/repo.git'', ''sub'') \<and>
   \<not> is_zip_uri ''https://example.com/repo.git'' \<and>
   \<not> is_local_uri ''https://example.com/repo.git'' \<and>
   events_of (fetch_project example_world ''https://example.com/repo.git#sub'' False None)
       example_store =
     [Mkdtemp None, GitInit ''/tmp/tmpdir'',
      GitCreateRemote ''/tmp/tmpdir'' ''origin'' ''https://example.com/repo.git'',
      GitFetch ''/tmp/tmpdir'' ''origin'',
      GitCreateHead ''/tmp/tmpdir'' ''master'' ''origin'' ''master'',
      GitCheckoutHead ''/tmp/tmpdir'' ''master''] \<and>
   result_of (fetch_project example_world ''https://example.com/repo.git#sub'' False None)
       example_store = Inr ''/tmp/tmpdir/sub'' \<and>
   parse_subdirectory ''https://example.com/proj.zip'' = Inr (''https://example.com/proj.zip'', '''') \<and>
   is_zip_uri ''https://example.com/proj.zip'' \<and>
   events_of (fetch_project example_world ''https://example.com/proj.zip'' False None)
       example_store =
     [Mkdtemp None, RequestsGet ''https://example.com/proj.zip'',
      Unzip (ZipBytes ''PK'') ''/tmp/tmpdir''] \<and>
   result_of (fetch_project example_world ''https://example.com/proj.zip'' False None)
       example_store = Inr ''/tmp/tmpdir'' \<and>
   parse_subdirectory ''/tmp/proj'' = Inr (''/tmp/proj'', '''') \<and>
   events_of (fetch_project example_world ''/tmp/proj'' True None) example_store =
     [Mkdtemp None, CopyTree ''/tmp/proj'' ''/tmp/tmpdir''] \<and>
   result_of (fetch_project example_world ''/tmp/proj'' True None) example_store =
     Inr ''/tmp/tmpdir''"
proof -
  note x = example_references
  note y = example_paths
  have w: "git_fetch example_world ''https://example.com/repo.git'' = Inr [''main'', ''master'']"
    "requests_get example_world ''https://example.com/proj.zip'' = Inr ''PK''"
    "zipfile_extractall example_world (ZipBytes ''PK'') ''/tmp/tmpdir'' = None"
    "dir_util_copy_tree example_world ''/tmp/proj'' ''/tmp/tmpdir'' = None"
    by (simp_all add: example_world_def)
  have g: "GIT_URI_REGEX_match ''https://example.com/repo.git''"
    using x(11) by (simp add: is_local_uri_def)
  have gr: "result_of (fetch_git_repo example_world ''https://example.com/repo.git'' None ''/tmp/tmpdir'')
      example_store = Inr ()"
    by (simp add: fetch_git_repo_result w)
  have c: "\<not> False \<and> \<not> is_zip_uri ''/tmp/proj'' \<and> is_local_uri ''/tmp/proj''"
    using x(6) x(9) by blast
  have d: "is_local_uri ''/tmp/proj#sub'' \<and> (None :: string option) = None \<and>
      os_path_exists example_world
        (os_path_abspath example_world (os_path_join example_world ''/tmp/proj'' ''sub''))"
    using x(10) y(4) by blast
  note t1 = fetch_project_temporary_directory [OF x(1), of example_world False None example_store]
  note i1 = t1 [THEN conjunct2, THEN conjunct1, THEN mp, OF c]
  have n0: "length (filter is_mkdtemp
     (events_of (fetch_project example_world ''/tmp/proj#sub'' False None) example_store)) = 0"
    unfolding t1 [THEN conjunct1] using x(6) x(9) by simp
  note e1 = i1 [THEN conjunct1]
  note r1 = i1 [THEN conjunct2, THEN conjunct2, THEN mp, OF d, unfolded y(1)]
  have u2: "False \<or> is_zip_uri ''https://example.com/repo.git'' \<or>
      \<not> is_local_uri ''https://example.com/repo.git''"
    using x(11) by blast
  note t2 = fetch_project_temporary_directory [OF x(3), of example_world False None example_store]
  note s2 = t2 [THEN conjunct2, THEN conjunct2, THEN mp, OF u2, THEN conjunct2, THEN spec,
      THEN mp, OF y(5)]
  have e2: "events_of (fetch_project example_world ''https://example.com/repo.git#sub'' False None)
       example_store =
     [Mkdtemp None, GitInit ''/tmp/tmpdir'',
      GitCreateRemote ''/tmp/tmpdir'' ''origin'' ''https://example.com/repo.git'',
      GitFetch ''/tmp/tmpdir'' ''origin'',
      GitCreateHead ''/tmp/tmpdir'' ''master'' ''origin'' ''master'',
      GitCheckoutHead ''/tmp/tmpdir'' ''master'']"
    unfolding s2 [THEN conjunct1] by (simp add: x(7) x(12) g w(1))
  have r2: "result_of (fetch_project example_world ''https://example.com/repo.git#sub'' False None)
       example_store = Inr ''/tmp/tmpdir/sub''"
    unfolding s2 [THEN conjunct2, THEN conjunct2] by (simp add: x(7) x(12) g gr y(2) y(4))
  have u3: "False \<or> is_zip_uri ''https://example.com/proj.zip'' \<or>
      \<not> is_local_uri ''https://example.com/proj.zip''"
    using x(8) by blast
  note t3 = fetch_project_temporary_directory [OF x(5), of example_world False None example_store]
  note s3 = t3 [THEN conjunct2, THEN conjunct2, THEN mp, OF u3, THEN conjunct2, THEN spec,
      THEN mp, OF y(5)]
  have e3: "events_of (fetch_project example_world ''https://example.com/proj.zip'' False None)
       example_store =
     [Mkdtemp None, RequestsGet ''https://example.com/proj.zip'',
      Unzip (ZipBytes ''PK'') ''/tmp/tmpdir'']"
    unfolding s3 [THEN conjunct1] by (simp add: x(8) x(13) x(14) w(2))
  have r3: "result_of (fetch_project example_world ''https://example.com/proj.zip'' False None)
       example_store = Inr ''/tmp/tmpdir''"
    unfolding s3 [THEN conjunct2, THEN conjunct2]
    by (simp add: x(8) x(13) x(14) w(2) w(3) y(3) y(4))
  have u4: "True \<or> is_zip_uri ''/tmp/proj'' \<or> \<not> is_local_uri ''/tmp/proj''"
    by blast
  note t4 = fetch_project_temporary_directory [OF x(2), of example_world True None example_store]
  note s4 = t4 [THEN conjunct2, THEN conjunct2, THEN mp, OF u4, THEN conjunct2, THEN spec,
      THEN mp, OF y(5)]
  have e4: "events_of (fetch_project example_world ''/tmp/proj'' True None) example_store =
     [Mkdtemp None, CopyTree ''/tmp/proj'' ''/tmp/tmpdir'']"
    unfolding s4 [THEN conjunct1] by (simp add: x(6) x(9))
  have r4: "result_of (fetch_project example_world ''/tmp/proj'' True None) example_store =
     Inr ''/tmp/tmpdir''"
    unfolding s4 [THEN conjunct2, THEN conjunct2] by (simp add: x(6) x(9) w(4) y(3) y(4))
  from x(1) x(6) x(9) x(10) y(4) n0 e1 r1 y(5) x(3) x(7) x(11) e2 r2 x(5) x(8) e3 r3 x(2) e4 r4
  show ?thesis
    by (intro conjI)
qed

section \<open>Properties of the conda environment\<close>

lemma process_exec_cmd_simps:
  "result_of (process_exec_cmd w cmd t) st = exec_cmd w cmd t"
  "store_of (process_exec_cmd w cmd t) st = st"
  "events_of (process_exec_cmd w cmd t) st = [ExecCmd cmd]"
  by (simp_all add: process_exec_cmd_def prog_simps)

lemma get_conda_env_name_quiet:
  "store_of (get_conda_env_name w conda_env_path env_id) st = st"
  "events_of (get_conda_env_name w conda_env_path env_id) st = []"
  by (simp_all add: get_conda_env_name_def prog_simps split: option.splits sum.splits)

lemma get_conda_env_name_result:
  assumes "open_read w p = Inr contents" and "p \<noteq> ''''"
  shows "result_of (get_conda_env_name w (Some p) env_id) st =
     Inr (''mlflow-'' @ sha1_hexdigest w
            (contents @ (case env_id of None \<Rightarrow> '''' | Some i \<Rightarrow> i)))"
  using assms by (simp add: get_conda_env_name_def prog_simps split: option.splits)

lemma get_or_create_conda_env_present:
  assumes "exec_cmd w [get_conda_bin_executable w ''conda'', ''--help''] False = Inr h"
    and "exec_cmd w [get_conda_bin_executable w ''conda'', ''env'', ''list'', ''--json''] True =
           Inr (code, out, err)"
    and "json_loads_envs w out = Inr envs"
    and "result_of (get_conda_env_name w conda_env_path env_id) st = Inr name"
    and "name \<in> set (map (os_path_basename w) envs)"
  shows "events_of (get_or_create_conda_env w conda_env_path env_id) st =
           [ExecCmd [get_conda_bin_executable w ''conda'', ''--help''],
            ExecCmd [get_conda_bin_executable w ''conda'', ''env'', ''list'', ''--json'']]"
    and "result_of (get_or_create_conda_env w conda_env_path env_id) st = Inr name"
  using assms
  by (simp_all add: get_or_create_conda_env_def Let_def prog_simps process_exec_cmd_simps
      get_conda_env_name_quiet)

text \<open>
  Claim C3. The name of the conda environment is \<open>mlflow-\<close> followed by the hex digest of
  the contents of the environment file with the discriminator appended. Two environment
  files with the same contents therefore give the same name for the same discriminator,
  whatever their paths and whatever the store. When conda answers and lists an
  environment of that name, \<open>get_or_create_conda_env\<close> runs the two queries only (no
  creation command) and returns the name.
\<close>

theorem conda_env_name_deterministic:
  assumes "open_read w p1 = Inr contents" and "open_read w p2 = Inr contents"
    and "p1 \<noteq> ''''" and "p2 \<noteq> ''''"
  shows
    "result_of (get_conda_env_name w (Some p1) env_id) st =
       Inr (''mlflow-'' @ sha1_hexdigest w
              (contents @ (case env_id of None \<Rightarrow> '''' | Some i \<Rightarrow> i))) \<and>
     result_of (get_conda_env_name w (Some p2) env_id) st' =
       result_of (get_conda_env_name w (Some p1) env_id) st \<and>
     (\<forall>h code out err envs.
        exec_cmd w [get_conda_bin_executable w ''conda'', ''--help''] False = Inr h \<and>
        exec_cmd w [get_conda_bin_executable w ''conda'', ''env'', ''list'', ''--json''] True =
          Inr (code, out, err) \<and>
        json_loads_envs w out = Inr envs \<and>
        ''mlflow-'' @ sha1_hexdigest w
              (contents @ (case env_id of None \<Rightarrow> '''' | Some i \<Rightarrow> i))
          \<in> set (map (os_path_basename w) envs) \<longrightarrow>
        events_of (get_or_create_conda_env w (Some p1) env_id) st =
          [ExecCmd [get_conda_bin_executable w ''conda'', ''--help''],
           ExecCmd [get_conda_bin_executable w ''conda'', ''env'', ''list'', ''--json'']] \<and>
        result_of (get_or_create_conda_env w (Some p1) env_id) st =
          Inr (''mlflow-'' @ sha1_hexdigest w
              (contents @ (case env_id of None \<Rightarrow> '''' | Some i \<Rightarrow> i))))"
proof -
  let ?name = "''mlflow-'' @ sha1_hexdigest w
              (contents @ (case env_id of None \<Rightarrow> '''' | Some i \<Rightarrow> i))"
  have n1: "result_of (get_conda_env_name w (Some p1) env_id) st = Inr ?name"
    using assms(1,3) by (rule get_conda_env_name_result)
  have n2: "result_of (get_conda_env_name w (Some p2) env_id) st' = Inr ?name"
    using assms(2,4) by (rule get_conda_env_name_result)
  have c: "\<forall>h code out err envs.
        exec_cmd w [get_conda_bin_executable w ''conda'', ''--help''] False = Inr h \<and>
        exec_cmd w [get_conda_bin_executable w ''conda'', ''env'', ''list'', ''--json''] True =
          Inr (code, out, err) \<and>
        json_loads_envs w out = Inr envs \<and>
        ?name \<in> set (map (os_path_basename w) envs) \<longrightarrow>
        events_of (get_or_create_conda_env w (Some p1) env_id) st =
          [ExecCmd [get_conda_bin_executable w ''conda'', ''--help''],
           ExecCmd [get_conda_bin_executable w ''conda'', ''env'', ''list'', ''--json'']] \<and>
        result_of (get_or_create_conda_env w (Some p1) env_id) st = Inr ?name"
    using get_or_create_conda_env_present [where w = w and conda_env_path = "Some p1"
        and env_id = env_id and st = st and name = ?name] n1
    by blast
  from n1 n2 c show ?thesis by simp
qed

theorem conda_env_name_deterministic_witness:
  "open_read (example_world\<lparr>json_loads_envs := \<lambda>s. Inr [''/opt/conda/envs/mlflow-da39a3ee'']\<rparr>)
     ''/tmp/proj/conda.yaml'' = Inr ''name: demo'' \<and>
   open_read (example_world\<lparr>json_loads_envs := \<lambda>s. Inr [''/opt/conda/envs/mlflow-da39a3ee'']\<rparr>)
     ''/tmp/copy/conda.yaml'' = Inr ''name: demo'' \<and>
   result_of (get_conda_env_name
       (example_world\<lparr>json_loads_envs := \<lambda>s. Inr [''/opt/conda/envs/mlflow-da39a3ee'']\<rparr>)
       (Some ''/tmp/proj/conda.yaml'') None) example_store = Inr ''mlflow-da39a3ee'' \<and>
   result_of (get_conda_env_name
       (example_world\<lparr>json_loads_envs := \<lambda>s. Inr [''/opt/conda/envs/mlflow-da39a3ee'']\<rparr>)
       (Some ''/tmp/copy/conda.yaml'') None) Map.empty = Inr ''mlflow-da39a3ee'' \<and>
   events_of (get_or_create_conda_env
       (example_world\<lparr>json_loads_envs := \<lambda>s. Inr [''/opt/conda/envs/mlflow-da39a3ee'']\<rparr>)
       (Some ''/tmp/proj/conda.yaml'') None) example_store =
     [ExecCmd [''conda'', ''--help''], ExecCmd [''conda'', ''env'', ''list'', ''--json'']] \<and>
   result_of (get_or_create_conda_env
       (example_world\<lparr>json_loads_envs := \<lambda>s. Inr [''/opt/conda/envs/mlflow-da39a3ee'']\<rparr>)
       (Some ''/tmp/proj/conda.yaml'') None) example_store = Inr ''mlflow-da39a3ee''"
proof -
  let ?w = "example_world\<lparr>json_loads_envs := \<lambda>s. Inr [''/opt/conda/envs/mlflow-da39a3ee'']\<rparr>"
  have a: "open_read ?w ''/tmp/proj/conda.yaml'' = Inr ''name: demo''"
    and b: "open_read ?w ''/tmp/copy/conda.yaml'' = Inr ''name: demo''"
    by (simp_all add: example_world_def)
  have c: "''/tmp/proj/conda.yaml'' \<noteq> ''''" and d: "''/tmp/copy/conda.yaml'' \<noteq> ''''"
    by simp_all
  have x: "get_conda_bin_executable ?w ''conda'' = ''conda''"
    by (simp add: get_conda_bin_executable_def example_world_def)
  have n: "''mlflow-'' @ sha1_hexdigest ?w (''name: demo'' @ (case None of None \<Rightarrow> '''' | Some i \<Rightarrow> i))
      = ''mlflow-da39a3ee''"
    by (simp add: example_world_def)
  have h: "exec_cmd ?w [get_conda_bin_executable ?w ''conda'', ''--help''] False = Inr (0, ''{}'', '''') \<and>
        exec_cmd ?w [get_conda_bin_executable ?w ''conda'', ''env'', ''list'', ''--json''] True =
          Inr (0, ''{}'', '''') \<and>
        json_loads_envs ?w ''{}'' = Inr [''/opt/conda/envs/mlflow-da39a3ee''] \<and>
        ''mlflow-'' @ sha1_hexdigest ?w (''name: demo'' @ (case None of None \<Rightarrow> '''' | Some i \<Rightarrow> i))
          \<in> set (map (os_path_basename ?w) [''/opt/conda/envs/mlflow-da39a3ee''])"
    by (simp add: example_world_def)
  note t = conda_env_name_deterministic [where w = ?w and ?p1.0 = "''/tmp/proj/conda.yaml''"
      and ?p2.0 = "''/tmp/copy/conda.yaml''" and contents = "''name: demo''" and env_id = None
      and st = example_store and st' = Map.empty, OF a b c d]
  from t have r1: "result_of (get_conda_env_name ?w (Some ''/tmp/proj/conda.yaml'') None) example_store =
       Inr (''mlflow-'' @ sha1_hexdigest ?w (''name: demo'' @ (case None of None \<Rightarrow> '''' | Some i \<Rightarrow> i)))"
    by (rule conjunct1)
  from t have r2: "result_of (get_conda_env_name ?w (Some ''/tmp/copy/conda.yaml'') None) Map.empty =
       result_of (get_conda_env_name ?w (Some ''/tmp/proj/conda.yaml'') None) example_store"
    by blast
  from t h have e: "events_of (get_or_create_conda_env ?w (Some ''/tmp/proj/conda.yaml'') None) example_store =
          [ExecCmd [get_conda_bin_executable ?w ''conda'', ''--help''],
           ExecCmd [get_conda_bin_executable ?w ''conda'', ''env'', ''list'', ''--json'']] \<and>
        result_of (get_or_create_conda_env ?w (Some ''/tmp/proj/conda.yaml'') None) example_store =
          Inr (''mlflow-'' @ sha1_hexdigest ?w (''name: demo'' @ (case None of None \<Rightarrow> '''' | Some i \<Rightarrow> i)))"
    by blast
  from a b r1 r2 e show ?thesis
    unfolding n x by simp
qed

section \<open>Properties of the run pipeline\<close>

lemma validate_execution_environment_simps:
  "result_of (validate_execution_environment project backend) st =
     (if truthy_dict (project_docker_env project) \<and> backend = Some ''databricks''
      then Inl (ExecutionException DockerOnDatabricks) else Inr ())"
  "store_of (validate_execution_environment project backend) st = st"
  "events_of (validate_execution_environment project backend) st = []"
  by (simp_all add: validate_execution_environment_def prog_simps)

lemma client_create_run_simps:
  "result_of (client_create_run w experiment_id tags) st =
     Inr \<lparr>info_run_id = created_run_id w, info_experiment_id = experiment_id,
          info_status = RUNNING\<rparr>"
  "store_of (client_create_run w experiment_id tags) st =
     st(created_run_id w \<mapsto> \<lparr>info_run_id = created_run_id w,
          info_experiment_id = experiment_id, info_status = RUNNING\<rparr>)"
  "events_of (client_create_run w experiment_id tags) st = [CreateRun experiment_id tags]"
  by (simp_all add: client_create_run_def result_of_def store_of_def events_of_def Let_def)

lemma create_run_simps:
  "result_of (create_run w uri experiment_id work_dir entry_point) st =
     Inr \<lparr>info_run_id = created_run_id w, info_experiment_id = experiment_id,
          info_status = RUNNING\<rparr>"
  "store_of (create_run w uri experiment_id work_dir entry_point) st =
     st(created_run_id w \<mapsto> \<lparr>info_run_id = created_run_id w,
          info_experiment_id = experiment_id, info_status = RUNNING\<rparr>)"
  "\<exists>tags. events_of (create_run w uri experiment_id work_dir entry_point) st =
     [CreateRun experiment_id tags]"
  by (simp_all add: create_run_def Let_def client_create_run_simps)

lemma log_params_simps:
  "result_of (log_params rid kvs) st = Inr ()"
  "store_of (log_params rid kvs) st = st"
  "events_of (log_params rid kvs) st = map (\<lambda>(k, v). LogParam rid k v) kvs"
  by (induction rid kvs rule: log_params.induct)
    (simp_all add: prog_simps client_log_param_def)

lemma set_tags_simps:
  "result_of (set_tags rid tags v) st = Inr ()"
  "store_of (set_tags rid tags v) st = st"
  "events_of (set_tags rid tags v) st = map (\<lambda>t. SetTag rid t v) tags"
  by (induction tags) (simp_all add: prog_simps client_set_tag_def)

text \<open>
  Claim C2. When the project has been fetched and loaded and validation fails (a docker
  project on the databricks backend, or the entry point rejects the parameters),
  \<open>run'\<close> raises, none of its events is a \<open>CreateRun\<close>, and the store of the tracking
  service is as before.
\<close>

theorem run_validation_failure_creates_no_run:
  assumes "result_of (fetch_project w uri False version) st = Inr work_dir"
    and "load_project w work_dir = Inr project"
    and "(truthy_dict (project_docker_env project) \<and> backend = Some ''databricks'') \<or>
         (\<exists>ep e. project_get_entry_point project entry_point = Inr ep \<and>
            ep_validate_parameters ep (case parameters of None \<Rightarrow> [] | Some ps \<Rightarrow> ps) = Some e)"
  shows "(\<exists>e. result_of (run' w uri experiment_id entry_point version parameters backend
             backend_config use_conda storage_dir synchronous run_id) st = Inl e) \<and>
         filter is_create_run (events_of (run' w uri experiment_id entry_point version parameters
             backend backend_config use_conda storage_dir synchronous run_id) st) = [] \<and>
         store_of (run' w uri experiment_id entry_point version parameters backend
             backend_config use_conda storage_dir synchronous run_id) st = st"
proof -
  let ?run = "run' w uri experiment_id entry_point version parameters backend
             backend_config use_conda storage_dir synchronous run_id"
  have s: "store_of (fetch_project w uri False version) st = st"
    by (rule fetch_project_store)
  have e: "events_of ?run st = events_of (fetch_project w uri False version) st"
    using assms
    by (auto simp: run'_def Let_def prog_simps validate_execution_environment_simps s)
  have r: "\<exists>e. result_of ?run st = Inl e"
    using assms
    by (auto simp: run'_def Let_def prog_simps validate_execution_environment_simps s)
  have t: "store_of ?run st = st"
    using assms
    by (auto simp: run'_def Let_def prog_simps validate_execution_environment_simps s)
  show ?thesis
    using r t by (simp add: e fetch_project_no_create_run)
qed

theorem run_validation_failure_creates_no_run_witness:
  "result_of (fetch_project example_world ''/tmp/proj'' False None) example_store = Inr ''/tmp/proj'' \<and>
   load_project example_world ''/tmp/proj'' = Inr example_project \<and>
   project_get_entry_point example_project ''main'' = Inr example_entry_point \<and>
   ep_validate_parameters example_entry_point [(''alpha'', ''bad'')] = Some (Raised ''ExecutionException'') \<and>
   (\<exists>e. result_of (run' example_world ''/tmp/proj'' ''0'' ''main'' None (Some [(''alpha'', ''bad'')])
      None None True None True None) example_store = Inl e) \<and>
   filter is_create_run (events_of (run' example_world ''/tmp/proj'' ''0'' ''main'' None
      (Some [(''alpha'', ''bad'')]) None None True None True None) example_store) = [] \<and>
   store_of (run' example_world ''/tmp/proj'' ''0'' ''main'' None (Some [(''alpha'', ''bad'')])
      None None True None True None) example_store = example_store"
proof -
  have p: "parse_subdirectory ''/tmp/proj'' = Inr (''/tmp/proj'', '''')"
    by (simp add: parse_subdirectory_def)
  have z: "\<not> is_zip_uri ''/tmp/proj''"
    by (simp add: is_zip_uri_def ZIP_URI_REGEX_match_def zip_tail_def)
  have l: "is_local_uri ''/tmp/proj''"
    by (simp add: is_local_uri_def GIT_URI_REGEX_match_def)
  have j: "os_path_abspath example_world (os_path_join example_world ''/tmp/proj'' '''') = ''/tmp/proj''"
    "os_path_exists example_world ''/tmp/proj''"
    by (simp_all add: example_world_def posix_join_def)
  have a: "result_of (fetch_project example_world ''/tmp/proj'' False None) example_store =
      Inr ''/tmp/proj''"
    using fetch_project_in_place(2) [OF p _ z l, of False example_world None example_store] l j
    by simp
  have b: "load_project example_world ''/tmp/proj'' = Inr example_project"
    by (simp add: example_world_def)
  have c: "project_get_entry_point example_project ''main'' = Inr example_entry_point"
    by (simp add: example_project_def)
  have d: "ep_validate_parameters example_entry_point
      (case Some [(''alpha'', ''bad'')] of None \<Rightarrow> [] | Some ps \<Rightarrow> ps) = Some (Raised ''ExecutionException'')"
    by (simp add: example_entry_point_def)
  have h: "(truthy_dict (project_docker_env example_project) \<and> None = Some ''databricks'') \<or>
         (\<exists>ep e. project_get_entry_point example_project ''main'' = Inr ep \<and>
            ep_validate_parameters ep (case Some [(''alpha'', ''bad'')] of None \<Rightarrow> [] | Some ps \<Rightarrow> ps) = Some e)"
    using c d by blast
  from run_validation_failure_creates_no_run [OF a b h, of "''0''" None True None True None] a b c d
  show ?thesis by simp
qed

text \<open>
  Claim C10. A backend that is neither \<open>local\<close> nor \<open>databricks\<close>, no run id given,
  and every step before the dispatch succeeding: \<open>run'\<close> raises the exception for the
  unsupported backend, and by then it has fetched the project, created the run record
  (which stays in the store, RUNNING), logged every parameter against it and set the
  git tags.
  The events of the fetch come first and are spelled out by the kind of the reference:
  none for a plain local path, which is the working directory in place; for an archive
  the temporary directory and the unpacking into it (after the download when the archive
  is not a local file); for a git reference the temporary directory and the
  initialisation, the remote, the fetch and the checkout in it. In the last two cases
  the working directory is the temporary directory joined with the subdirectory.
\<close>

theorem run_unsupported_backend_after_side_effects:
  assumes "backend = Some b" and "b \<noteq> ''local''" and "b \<noteq> ''databricks''"
    and "result_of (fetch_project w uri False version) st = Inr work_dir"
    and "load_project w work_dir = Inr project"
    and "project_get_entry_point project entry_point = Inr ep"
    and "ep_validate_parameters ep (case parameters of None \<Rightarrow> [] | Some ps \<Rightarrow> ps) = None"
    and "ep_compute_parameters ep (case parameters of None \<Rightarrow> [] | Some ps \<Rightarrow> ps) None =
           Inr (final_params, extra_params)"
    and "\<not> truthy run_id"
    and "get_git_repo_url w work_dir = Inr repo_url"
    and "is_valid_branch_name w work_dir version = Inr valid_branch"
  shows "result_of (run' w uri experiment_id entry_point version parameters backend
             backend_config use_conda storage_dir synchronous run_id) st =
           Inl (ExecutionException (UnsupportedBackend b [''local'', ''databricks''])) \<and>
         (\<exists>tags. events_of (run' w uri experiment_id entry_point version parameters backend
             backend_config use_conda storage_dir synchronous run_id) st =
           events_of (fetch_project w uri False version) st @
           [CreateRun experiment_id tags] @
           map (\<lambda>(k, v). LogParam (created_run_id w) k v) (final_params @ extra_params) @
           (case repo_url of
              None \<Rightarrow> []
            | Some u \<Rightarrow> [SetTag (created_run_id w) MLFLOW_GIT_REPO_URL u,
                         SetTag (created_run_id w) LEGACY_MLFLOW_GIT_REPO_URL u]) @
           (if valid_branch
            then [SetTag (created_run_id w) MLFLOW_GIT_BRANCH (case version of None \<Rightarrow> '''' | Some v \<Rightarrow> v),
                  SetTag (created_run_id w) LEGACY_MLFLOW_GIT_BRANCH_NAME
                    (case version of None \<Rightarrow> '''' | Some v \<Rightarrow> v)]
            else [])) \<and>
         store_of (run' w uri experiment_id entry_point version parameters backend
             backend_config use_conda storage_dir synchronous run_id) st =
           st(created_run_id w \<mapsto> \<lparr>info_run_id = created_run_id w,
                info_experiment_id = experiment_id, info_status = RUNNING\<rparr>) \<and>
         (\<forall>parsed_uri subdirectory.
            parse_subdirectory uri = Inr (parsed_uri, subdirectory) \<longrightarrow>
            (\<not> is_zip_uri parsed_uri \<and> is_local_uri parsed_uri \<longrightarrow>
               events_of (fetch_project w uri False version) st = [] \<and>
               work_dir = os_path_abspath w (os_path_join w parsed_uri subdirectory)) \<and>
            (\<forall>d. tempfile_mkdtemp w None = Inr d \<longrightarrow>
               (is_zip_uri parsed_uri \<longrightarrow>
                  work_dir = os_path_abspath w (os_path_join w d subdirectory) \<and>
                  events_of (fetch_project w uri False version) st =
                    Mkdtemp None #
                    (let zip_uri = (if is_file_uri parsed_uri
                                    then os_path_join w (fst (urlparse_unquote w parsed_uri))
                                           (snd (urlparse_unquote w parsed_uri))
                                    else parsed_uri)
                     in if is_local_uri zip_uri then [Unzip (ZipPath zip_uri) d]
                        else RequestsGet zip_uri #
                             (case requests_get w zip_uri of
                                Inl reason \<Rightarrow> []
                              | Inr content \<Rightarrow> [Unzip (ZipBytes content) d]))) \<and>
               (\<not> is_zip_uri parsed_uri \<and> \<not> is_local_uri parsed_uri \<longrightarrow>
                  work_dir = os_path_abspath w (os_path_join w d subdirectory) \<and>
                  events_of (fetch_project w uri False version) st =
                    [Mkdtemp None, GitInit d, GitCreateRemote d ''origin'' parsed_uri,
                     GitFetch d ''origin''] @
                    (case version of
                       Some v \<Rightarrow> [GitCheckout d v]
                     | None \<Rightarrow> [GitCreateHead d ''master'' ''origin'' ''master'',
                                 GitCheckoutHead d ''master'']))))"
  (is "?result \<and> ?events \<and> ?store \<and> ?fetched")
proof -
  let ?run = "run' w uri experiment_id entry_point version parameters backend
             backend_config use_conda storage_dir synchronous run_id"
  have s: "store_of (fetch_project w uri False version) st = st"
    by (rule fetch_project_store)
  obtain tags where t: "events_of (create_run w uri experiment_id work_dir entry_point) st =
     [CreateRun experiment_id tags]"
    using create_run_simps(3) by blast
  have n: "run_id = None \<or> run_id = Some ''''"
    using assms(9) by (cases run_id) auto
  have r: ?result
    using assms(1-8,10,11) n
    by (auto simp: run'_def Let_def prog_simps validate_execution_environment_simps s
        create_run_simps log_params_simps set_tags_simps client_set_tag_def split: option.splits)
  have e: "events_of ?run st =
           events_of (fetch_project w uri False version) st @
           [CreateRun experiment_id tags] @
           map (\<lambda>(k, v). LogParam (created_run_id w) k v) (final_params @ extra_params) @
           (case repo_url of
              None \<Rightarrow> []
            | Some u \<Rightarrow> [SetTag (created_run_id w) MLFLOW_GIT_REPO_URL u,
                         SetTag (created_run_id w) LEGACY_MLFLOW_GIT_REPO_URL u]) @
           (if valid_branch
            then [SetTag (created_run_id w) MLFLOW_GIT_BRANCH (case version of None \<Rightarrow> '''' | Some v \<Rightarrow> v),
                  SetTag (created_run_id w) LEGACY_MLFLOW_GIT_BRANCH_NAME
                    (case version of None \<Rightarrow> '''' | Some v \<Rightarrow> v)]
            else [])"
    using assms(1-8,10,11) n t
    by (auto simp: run'_def Let_def prog_simps validate_execution_environment_simps s
        create_run_simps(1,2) log_params_simps set_tags_simps client_set_tag_def split: option.splits)
  then have e': ?events ..
  have u: ?store
    using assms(1-8,10,11) n
    by (auto simp: run'_def Let_def prog_simps validate_execution_environment_simps s
        create_run_simps log_params_simps set_tags_simps client_set_tag_def split: option.splits)
  have f: ?fetched
  proof (intro allI impI conjI)
    fix parsed_uri subdirectory
    assume p: "parse_subdirectory uri = Inr (parsed_uri, subdirectory)"
    note k = fetch_project_fetched [OF p assms(4)]
    {
      assume c: "\<not> is_zip_uri parsed_uri \<and> is_local_uri parsed_uri"
      from k(1) c show "events_of (fetch_project w uri False version) st = []" by blast
      from k(1) c show "work_dir = os_path_abspath w (os_path_join w parsed_uri subdirectory)"
        by blast
    }
    fix d
    assume m: "tempfile_mkdtemp w None = Inr d"
    {
      assume z: "is_zip_uri parsed_uri"
      from k(2) [OF m z] show "work_dir = os_path_abspath w (os_path_join w d subdirectory)"
        by (rule conjunct1)
      from k(2) [OF m z] show "events_of (fetch_project w uri False version) st =
                    Mkdtemp None #
                    (let zip_uri = (if is_file_uri parsed_uri
                                    then os_path_join w (fst (urlparse_unquote w parsed_uri))
                                           (snd (urlparse_unquote w parsed_uri))
                                    else parsed_uri)
                     in if is_local_uri zip_uri then [Unzip (ZipPath zip_uri) d]
                        else RequestsGet zip_uri #
                             (case requests_get w zip_uri of
                                Inl reason \<Rightarrow> []
                              | Inr content \<Rightarrow> [Unzip (ZipBytes content) d]))"
        by (rule conjunct2)
    }
    {
      assume c: "\<not> is_zip_uri parsed_uri \<and> \<not> is_local_uri parsed_uri"
      note g = k(3) [OF m c [THEN conjunct1] c [THEN conjunct2]]
      from g show "work_dir = os_path_abspath w (os_path_join w d subdirectory)"
        by (rule conjunct1)
      from g show "events_of (fetch_project w uri False version) st =
                    [Mkdtemp None, GitInit d, GitCreateRemote d ''origin'' parsed_uri,
                     GitFetch d ''origin''] @
                    (case version of
                       Some v \<Rightarrow> [GitCheckout d v]
                     | None \<Rightarrow> [GitCreateHead d ''master'' ''origin'' ''master'',
                                 GitCheckoutHead d ''master''])"
        by (rule conjunct2)
    }
  qed
  from r e' u f show ?thesis by (intro conjI)
qed

lemma example_fetch:
  "result_of (fetch_project example_world ''/tmp/proj'' False None) st = Inr ''/tmp/proj''"
  "events_of (fetch_project example_world ''/tmp/proj'' False None) st = []"
proof -
  have p: "parse_subdirectory ''/tmp/proj'' = Inr (''/tmp/proj'', '''')"
    by (simp add: parse_subdirectory_def)
  have z: "\<not> is_zip_uri ''/tmp/proj''"
    by (simp add: is_zip_uri_def ZIP_URI_REGEX_match_def zip_tail_def)
  have l: "is_local_uri ''/tmp/proj''"
    by (simp add: is_local_uri_def GIT_URI_REGEX_match_def)
  have j: "os_path_abspath example_world (os_path_join example_world ''/tmp/proj'' '''') = ''/tmp/proj''"
    "os_path_exists example_world ''/tmp/proj''"
    by (simp_all add: example_world_def posix_join_def)
  show "result_of (fetch_project example_world ''/tmp/proj'' False None) st = Inr ''/tmp/proj''"
    using fetch_project_in_place(2) [OF p _ z l, of False example_world None st] l j
    by simp
  show "events_of (fetch_project example_world ''/tmp/proj'' False None) st = []"
    using fetch_project_in_place(1) [OF p _ z l, of False example_world None st]
    by simp
qed

lemma example_git_world_fields:
  "tempfile_mkdtemp example_git_world None = Inr ''/tmp/tmpdir''"
  "git_fetch example_git_world ''https://example.com/repo.git'' = Inr [''main'', ''master'']"
  "os_path_abspath example_git_world (os_path_join example_git_world ''/tmp/tmpdir'' '''') =
     ''/tmp/tmpdir''"
  "os_path_exists example_git_world p"
  "load_project example_git_world ''/tmp/tmpdir'' = Inr example_project"
  "git_repo_remotes example_git_world ''/tmp/tmpdir'' = Inr [''https://example.com/repo.git'']"
  "created_run_id example_git_world = ''run1''"
  by (simp_all add: example_git_world_def example_world_def posix_join_def)

lemma example_fetch_git:
  "result_of (fetch_project example_git_world ''https://example.com/repo.git'' False None) st =
     Inr ''/tmp/tmpdir''"
proof -
  note x = example_references
  note y = example_git_world_fields
  have u: "False \<or> is_zip_uri ''https://example.com/repo.git'' \<or>
      \<not> is_local_uri ''https://example.com/repo.git''"
    using x(11) by blast
  have g: "GIT_URI_REGEX_match ''https://example.com/repo.git''"
    using x(11) by (simp add: is_local_uri_def)
  have gr: "result_of (fetch_git_repo example_git_world ''https://example.com/repo.git'' None
      ''/tmp/tmpdir'') st = Inr ()"
    by (simp add: fetch_git_repo_result y(2))
  show ?thesis
    unfolding fetch_project_temporary(2) [OF x(4) u y(1)]
    by (simp add: x(7) x(11) g gr y(3) y(4))
qed

theorem run_unsupported_backend_after_side_effects_witness:
  "Some ''kubernetes'' = Some ''kubernetes'' \<and> ''kubernetes'' \<noteq> ''local'' \<and>
   ''kubernetes'' \<noteq> ''databricks'' \<and>
   result_of (fetch_project example_git_world ''https://example.com/repo.git'' False None)
     example_store = Inr ''/tmp/tmpdir'' \<and>
   load_project example_git_world ''/tmp/tmpdir'' = Inr example_project \<and>
   project_get_entry_point example_project ''main'' = Inr example_entry_point \<and>
   ep_validate_parameters example_entry_point [(''alpha'', ''0.5'')] = None \<and>
   ep_compute_parameters example_entry_point [(''alpha'', ''0.5'')] None =
     Inr ([(''alpha'', ''0.5'')], [(''beta'', ''1'')]) \<and>
   \<not> truthy None \<and>
   get_git_repo_url example_git_world ''/tmp/tmpdir'' = Inr (Some ''https://example.com/repo.git'') \<and>
   is_valid_branch_name example_git_world ''/tmp/tmpdir'' None = Inr False \<and>
   parse_subdirectory ''https://example.com/repo.git'' = Inr (''https://example.com/repo.git'', '''') \<and>
   \<not> is_zip_uri ''https://example.com/repo.git'' \<and>
   \<not> is_local_uri ''https://example.com/repo.git'' \<and>
   tempfile_mkdtemp example_git_world None = Inr ''/tmp/tmpdir'' \<and>
   result_of (run' example_git_world ''https://example.com/repo.git'' ''0'' ''main'' None
      (Some [(''alpha'', ''0.5'')]) (Some ''kubernetes'') None True None True None) example_store =
     Inl (ExecutionException (UnsupportedBackend ''kubernetes'' [''local'', ''databricks''])) \<and>
   (\<exists>tags. events_of (run' example_git_world ''https://example.com/repo.git'' ''0'' ''main'' None
      (Some [(''alpha'', ''0.5'')]) (Some ''kubernetes'') None True None True None) example_store =
     [Mkdtemp None, GitInit ''/tmp/tmpdir'',
      GitCreateRemote ''/tmp/tmpdir'' ''origin'' ''https://example.com/repo.git'',
      GitFetch ''/tmp/tmpdir'' ''origin'',
      GitCreateHead ''/tmp/tmpdir'' ''master'' ''origin'' ''master'',
      GitCheckoutHead ''/tmp/tmpdir'' ''master'',
      CreateRun ''0'' tags,
      LogParam ''run1'' ''alpha'' ''0.5'', LogParam ''run1'' ''beta'' ''1'',
      SetTag ''run1'' MLFLOW_GIT_REPO_URL ''https://example.com/repo.git'',
      SetTag ''run1'' LEGACY_MLFLOW_GIT_REPO_URL ''https://example.com/repo.git'']) \<and>
   store_of (run' example_git_world ''https://example.com/repo.git'' ''0'' ''main'' None
      (Some [(''alpha'', ''0.5'')]) (Some ''kubernetes'') None True None True None) example_store =
     example_store(''run1'' \<mapsto> \<lparr>info_run_id = ''run1'', info_experiment_id = ''0'',
       info_status = RUNNING\<rparr>)"
proof -
  note x = example_references
  note y = example_git_world_fields
  have a: "result_of (fetch_project example_git_world ''https://example.com/repo.git'' False None)
      example_store = Inr ''/tmp/tmpdir''"
    by (rule example_fetch_git)
  note b = y(5)
  have c: "project_get_entry_point example_project ''main'' = Inr example_entry_point"
    by (simp add: example_project_def)
  have d: "ep_validate_parameters example_entry_point
      (case Some [(''alpha'', ''0.5'')] of None \<Rightarrow> [] | Some ps \<Rightarrow> ps) = None"
    by (simp add: example_entry_point_def)
  have e: "ep_compute_parameters example_entry_point
      (case Some [(''alpha'', ''0.5'')] of None \<Rightarrow> [] | Some ps \<Rightarrow> ps) None =
      Inr ([(''alpha'', ''0.5'')], [(''beta'', ''1'')])"
    by (simp add: example_entry_point_def)
  have f: "\<not> truthy None" by simp
  have g: "get_git_repo_url example_git_world ''/tmp/tmpdir'' =
      Inr (Some ''https://example.com/repo.git'')"
    by (simp add: get_git_repo_url_def y(6))
  have h: "is_valid_branch_name example_git_world ''/tmp/tmpdir'' None = Inr False"
    by (simp add: is_valid_branch_name_def)
  have k: "''kubernetes'' \<noteq> ''local''" "''kubernetes'' \<noteq> ''databricks''" by simp_all
  have l: "\<not> is_zip_uri ''https://example.com/repo.git'' \<and>
      \<not> is_local_uri ''https://example.com/repo.git''"
    using x(7) x(11) by (rule conjI)
  note t = run_unsupported_backend_after_side_effects [OF refl k a b c d e f g h, of "''0''" None True None True]
  note fe = t [THEN conjunct2, THEN conjunct2, THEN conjunct2, THEN spec, THEN spec, THEN mp,
      OF x(4), THEN conjunct2, THEN spec, THEN mp, OF y(1), THEN conjunct2, THEN mp, OF l,
      THEN conjunct2]
  from t have r: "result_of (run' example_git_world ''https://example.com/repo.git'' ''0'' ''main''
      None (Some [(''alpha'', ''0.5'')]) (Some ''kubernetes'') None True None True None)
      example_store =
     Inl (ExecutionException (UnsupportedBackend ''kubernetes'' [''local'', ''databricks'']))"
    by (rule conjunct1)
  have v: "\<exists>tags. events_of (run' example_git_world ''https://example.com/repo.git'' ''0'' ''main''
      None (Some [(''alpha'', ''0.5'')]) (Some ''kubernetes'') None True None True None)
      example_store =
     [Mkdtemp None, GitInit ''/tmp/tmpdir'',
      GitCreateRemote ''/tmp/tmpdir'' ''origin'' ''https://example.com/repo.git'',
      GitFetch ''/tmp/tmpdir'' ''origin'',
      GitCreateHead ''/tmp/tmpdir'' ''master'' ''origin'' ''master'',
      GitCheckoutHead ''/tmp/tmpdir'' ''master'',
      CreateRun ''0'' tags,
      LogParam ''run1'' ''alpha'' ''0.5'', LogParam ''run1'' ''beta'' ''1'',
      SetTag ''run1'' MLFLOW_GIT_REPO_URL ''https://example.com/repo.git'',
      SetTag ''run1'' LEGACY_MLFLOW_GIT_REPO_URL ''https://example.com/repo.git'']"
    using t [THEN conjunct2, THEN conjunct1] unfolding fe y(7) by simp
  have s: "store_of (run' example_git_world ''https://example.com/repo.git'' ''0'' ''main'' None
      (Some [(''alpha'', ''0.5'')]) (Some ''kubernetes'') None True None True None) example_store =
     example_store(''run1'' \<mapsto> \<lparr>info_run_id = ''run1'', info_experiment_id = ''0'',
       info_status = RUNNING\<rparr>)"
    using t [THEN conjunct2, THEN conjunct2, THEN conjunct1] unfolding y(7) .
  have d': "ep_validate_parameters example_entry_point [(''alpha'', ''0.5'')] = None"
    using d by simp
  have e': "ep_compute_parameters example_entry_point [(''alpha'', ''0.5'')] None =
     Inr ([(''alpha'', ''0.5'')], [(''beta'', ''1'')])"
    using e by simp
  from refl k a b c d' e' f g h x(4) x(7) x(11) y(1) r v s show ?thesis
    by (intro conjI)
qed

lemma run_entry_point_simps:
  "result_of (run_entry_point w command work_dir experiment_id rid) st =
     Inr (LocalSubmittedRun (Some rid)
            (if \<not> os_name_nt w then [''bash'', ''-c'', command] else [command]))"
  "store_of (run_entry_point w command work_dir experiment_id rid) st = st"
  "events_of (run_entry_point w command work_dir experiment_id rid) st =
     [Popen (if \<not> os_name_nt w then [''bash'', ''-c'', command] else [command]) (Some work_dir)
        (dict_update (os_environ w) (get_run_env_vars w rid experiment_id)) False]"
  by (simp_all add: run_entry_point_def Let_def prog_simps)

lemma get_entry_point_command_result:
  assumes "result_of (get_entry_point_command w project entry_point parameters storage_dir) st = Inr c"
  shows "\<exists>ep storage_dir_for_run cmd.
           project_get_entry_point project entry_point = Inr ep \<and>
           ep_compute_command ep parameters storage_dir_for_run = Inr cmd \<and> c = [cmd]"
  using assms
  by (auto simp: get_entry_point_command_def prog_simps split: sum.splits)

lemma bnd_InrE:
  assumes "result_of (bnd m f) st = Inr y"
  obtains x where "result_of m st = Inr x" and "result_of (f x) (store_of m st) = Inr y"
  using assms by (auto simp: prog_simps split: sum.splits)

lemma bnd_prod_InrE:
  assumes "result_of (bnd m (\<lambda>(a, b). f a b)) st = Inr y"
  obtains a b where "result_of m st = Inr (a, b)" and "result_of (f a b) (store_of m st) = Inr y"
  using assms by (auto simp: prog_simps split: sum.splits)

lemma thn_InrE:
  assumes "result_of (thn m n) st = Inr y"
  obtains x where "result_of m st = Inr x" and "result_of n (store_of m st) = Inr y"
  using assms by (auto simp: prog_simps split: sum.splits)

text \<open>
  Claim C8. On the local backend in synchronous mode, whenever \<open>run'\<close> returns a run,
  the process it started runs the command fragments joined with the separator of the
  environment strategy, the entry point's command last: a single space after the
  \<^verbatim>\<open>docker run\<close> fragments of a docker project, \<^verbatim>\<open>&&\<close> after the activation of the
  conda environment otherwise when conda is used, and the entry point's command alone
  when it is not.
\<close>

theorem run_command_separator:
  assumes "backend = None \<or> backend = Some ''local''" and "synchronous"
    and "result_of (fetch_project w uri False version) st = Inr work_dir"
    and "load_project w work_dir = Inr project"
    and "result_of (run' w uri experiment_id entry_point version parameters backend
             backend_config use_conda storage_dir synchronous run_id) st = Inr sr"
  shows "\<exists>active_run ep storage_dir_for_run cmd separator fragments.
           project_get_entry_point project entry_point = Inr ep \<and>
           ep_compute_command ep (case parameters of None \<Rightarrow> [] | Some ps \<Rightarrow> ps)
             storage_dir_for_run = Inr cmd \<and>
           sr = LocalSubmittedRun (Some (info_run_id active_run))
                  (if \<not> os_name_nt w
                   then [''bash'', ''-c'', str_join separator (fragments @ [cmd])]
                   else [str_join separator (fragments @ [cmd])]) \<and>
           (if truthy_dict (project_docker_env project)
            then separator = '' '' \<and>
                 (\<exists>image_name. fragments = get_docker_command w image_name active_run)
            else if use_conda
            then separator = '' && '' \<and>
                 (\<exists>conda_env_name. fragments = get_conda_command w conda_env_name)
            else separator = '' '' \<and> fragments = [])"
proof -
  let ?ps = "case parameters of None \<Rightarrow> [] | Some ps \<Rightarrow> ps"
  from assms obtain active_run st1 where
    rest: "result_of
       (bnd (if truthy_dict (project_docker_env project) then
               thn (client_set_tag (info_run_id active_run) MLFLOW_PROJECT_ENV ''docker'')
              (thn (validate_docker_env
                      (case project_docker_env project of None \<Rightarrow> [] | Some d \<Rightarrow> d))
              (thn (validate_docker_installation w)
              (bnd (build_docker_image w work_dir project active_run) (\<lambda>image_name.
               ret ('' '', get_docker_command w image_name active_run)))))
             else if use_conda then
               thn (client_set_tag (info_run_id active_run) MLFLOW_PROJECT_ENV ''conda'')
              (bnd (get_or_create_conda_env w (project_conda_env_path project) None)
                 (\<lambda>conda_env_name.
               ret ('' && '', get_conda_command w conda_env_name)))
             else ret ('' '', []))
          (\<lambda>(command_separator, command).
             bnd (get_entry_point_command w project entry_point ?ps storage_dir)
               (\<lambda>entry_point_command.
             run_entry_point w (str_join command_separator (command @ entry_point_command))
               work_dir experiment_id (info_run_id active_run)))) st1 = Inr sr"
    unfolding run'_def Let_def
    by (elim bnd_prod_InrE bnd_InrE thn_InrE) (auto simp: of_result_simps)
  from rest obtain separator fragments st2 where
    strategy: "result_of
       (if truthy_dict (project_docker_env project) then
               thn (client_set_tag (info_run_id active_run) MLFLOW_PROJECT_ENV ''docker'')
              (thn (validate_docker_env
                      (case project_docker_env project of None \<Rightarrow> [] | Some d \<Rightarrow> d))
              (thn (validate_docker_installation w)
              (bnd (build_docker_image w work_dir project active_run) (\<lambda>image_name.
               ret ('' '', get_docker_command w image_name active_run)))))
             else if use_conda then
               thn (client_set_tag (info_run_id active_run) MLFLOW_PROJECT_ENV ''conda'')
              (bnd (get_or_create_conda_env w (project_conda_env_path project) None)
                 (\<lambda>conda_env_name.
               ret ('' && '', get_conda_command w conda_env_name)))
             else ret ('' '', [])) st1 = Inr (separator, fragments)"
    and launch: "result_of
       (bnd (get_entry_point_command w project entry_point ?ps storage_dir)
               (\<lambda>entry_point_command.
             run_entry_point w (str_join separator (fragments @ entry_point_command))
               work_dir experiment_id (info_run_id active_run))) st2 = Inr sr"
    by (elim bnd_prod_InrE)
  from launch obtain ep storage_dir_for_run cmd where
    ep: "project_get_entry_point project entry_point = Inr ep"
    and cmd: "ep_compute_command ep ?ps storage_dir_for_run = Inr cmd"
    and sr: "sr = LocalSubmittedRun (Some (info_run_id active_run))
                  (if \<not> os_name_nt w
                   then [''bash'', ''-c'', str_join separator (fragments @ [cmd])]
                   else [str_join separator (fragments @ [cmd])])"
    by (elim bnd_InrE) (auto simp: run_entry_point_simps dest!: get_entry_point_command_result)
  have shape: "if truthy_dict (project_docker_env project)
            then separator = '' '' \<and>
                 (\<exists>image_name. fragments = get_docker_command w image_name active_run)
            else if use_conda
            then separator = '' && '' \<and>
                 (\<exists>conda_env_name. fragments = get_conda_command w conda_env_name)
            else separator = '' '' \<and> fragments = []"
    using strategy
    by (auto simp: ret_simps split: if_splits elim!: bnd_InrE thn_InrE)
  from ep cmd sr shape show ?thesis by blast
qed

lemma example_world_fields:
  "os_name_nt example_world = False"
  "os_environ_MLFLOW_CONDA_HOME example_world = None"
  "os_path_exists example_world p = True"
  "os_path_basename example_world ''/opt/conda/envs/base'' = ''base''"
  "tempfile_mkdtemp example_world None = Inr ''/tmp/tmpdir''"
  "open_read example_world p = Inr ''name: demo''"
  "sha1_hexdigest example_world s = ''da39a3ee''"
  "json_loads_envs example_world s = Inr [''/opt/conda/envs/base'']"
  "git_repo_remotes example_world d = Inl (Raised ''InvalidGitRepositoryError'')"
  "exec_cmd example_world cmd t = Inr (0, ''{}'', '''')"
  "load_project example_world d = Inr example_project"
  "created_run_id example_world = ''run1''"
  by (simp_all add: example_world_def)

lemma example_run_result:
  "result_of (run' example_world ''/tmp/proj'' ''0'' ''main'' None (Some [(''alpha'', ''0.5'')])
      None None True None True None) example_store =
   Inr (LocalSubmittedRun (Some ''run1'')
          [''bash'', ''-c'', ''source activate mlflow-da39a3ee && python train.py''])"
  by (simp add: run'_def Let_def prog_simps example_fetch fetch_project_store
      validate_execution_environment_simps create_run_simps log_params_simps client_set_tag_def
      get_git_repo_url_def is_valid_branch_name_def get_or_create_conda_env_def
      get_conda_env_name_def get_conda_bin_executable_def get_conda_command_def
      get_entry_point_command_def get_storage_dir_def run_entry_point_simps
      process_exec_cmd_simps example_world_fields example_project_def example_entry_point_def
      client_log_param_def)

theorem run_command_separator_witness:
  "(None = None \<or> None = Some ''local'') \<and>
   result_of (fetch_project example_world ''/tmp/proj'' False None) example_store = Inr ''/tmp/proj'' \<and>
   load_project example_world ''/tmp/proj'' = Inr example_project \<and>
   result_of (run' example_world ''/tmp/proj'' ''0'' ''main'' None (Some [(''alpha'', ''0.5'')])
      None None True None True None) example_store =
     Inr (LocalSubmittedRun (Some ''run1'')
          [''bash'', ''-c'', ''source activate mlflow-da39a3ee && python train.py'']) \<and>
   \<not> truthy_dict (project_docker_env example_project) \<and>
   (\<exists>cmd conda_env_name.
      ''source activate mlflow-da39a3ee && python train.py'' =
        str_join '' && '' (get_conda_command example_world conda_env_name @ [cmd]))"
proof -
  have a: "(None :: string option) = None \<or> None = Some ''local''" by simp
  have b: "True" by simp
  have c: "result_of (fetch_project example_world ''/tmp/proj'' False None) example_store =
      Inr ''/tmp/proj''"
    by (rule example_fetch)
  have d: "load_project example_world ''/tmp/proj'' = Inr example_project"
    by (simp add: example_world_def)
  note e = example_run_result
  have f: "\<not> truthy_dict (project_docker_env example_project)"
    by (simp add: example_project_def)
  have g: "\<not> os_name_nt example_world"
    by (simp add: example_world_def)
  from run_command_separator [OF a b c d e] f g
  have "\<exists>cmd conda_env_name.
      ''source activate mlflow-da39a3ee && python train.py'' =
        str_join '' && '' (get_conda_command example_world conda_env_name @ [cmd])"
    by auto
  with a c d e f show ?thesis by blast
qed

end
